theory Spec2Isabelle
  imports Complex_Main "HOL-Library.Sublist"
begin

section \<open>Values of the host language\<close>

text \<open>
  A field declared \<^verbatim>\<open>T | null | undefined\<close> (an optional, nullable column of an insert
  type) has three shapes; a field declared \<^verbatim>\<open>T | null\<close> (a stored column) is an
  \<open>option\<close>, \<open>None\<close> being \<^verbatim>\<open>null\<close>.
\<close>

datatype 'a optional = Undefined | Null | Value 'a

text \<open>\<^verbatim>\<open>x ?? null\<close>: \<^verbatim>\<open>undefined\<close> and \<^verbatim>\<open>null\<close> both become \<^verbatim>\<open>null\<close>.\<close>

fun orNull :: "'a optional \<Rightarrow> 'a option" where
  "orNull Undefined = None"
| "orNull Null = None"
| "orNull (Value v) = Some v"

text \<open>\<^verbatim>\<open>x ?? d\<close> for a default \<open>d\<close> of the field's own type.\<close>

fun orElse :: "'a optional \<Rightarrow> 'a \<Rightarrow> 'a" where
  "orElse Undefined d = d"
| "orElse Null d = d"
| "orElse (Value v) d = v"

text \<open>
  A number of the host language is an IEEE double. Finite values are carried by the
  rational they denote (every double is one); the two infinities and NaN are separate
  values. Negative zero is not distinguished from zero: the code below never divides by
  a zero or prints one.
\<close>

datatype jsnum = NaN | NInf | Num rat | PInf

text \<open>
  A value as \<^verbatim>\<open>JSON.parse\<close> builds it, together with \<^verbatim>\<open>undefined\<close>, which reading a
  missing property yields. An object is its table of own properties; strings are
  carried as the bytes of their UTF-8 encoding.
\<close>

datatype jsval =
    JUndefined
  | JNull
  | JBool bool
  | JNum jsnum
  | JStr string
  | JArr "jsval list"
  | JObj "(string \<times> jsval) list"

text \<open>
  The time value of a valid \<^verbatim>\<open>Date\<close>, in milliseconds since the epoch. \<^verbatim>\<open>new Date()\<close>
  is always a valid date; the reading of the clock is an input of every operation that
  takes one.
\<close>

type_synonym Date = int

section \<open>The in-memory storage (server/storage.ts, class MemStorage)\<close>

subsection \<open>Entities\<close>

text \<open>
  The entity types are declared in \<^verbatim>\<open>@shared/schema\<close>; the fields below are the ones
  the storage and the routes read or write. The columns of a disease report and of a
  feedback record that this code only copies (\<^verbatim>\<open>...insertReport\<close>) are the field
  \<open>other\<close>, of a type left open, and so is the type of a coordinate.

  The text columns of a plant analysis are declared strings, but the route fills them
  from the vision model's JSON without validating it, so at run time they hold any
  \<open>jsval\<close>.
\<close>

record InsertUser =
  iu_username :: string
  iu_password :: string
  iu_email :: "string optional"
  iu_firstName :: "string optional"
  iu_lastName :: "string optional"

record User =
  u_id :: int
  u_username :: string
  u_password :: string
  u_email :: "string option"
  u_firstName :: "string option"
  u_lastName :: "string option"
  u_createdAt :: "Date option"

record InsertPlantAnalysis =
  ipa_userId :: int
  ipa_imagePath :: string
  ipa_diagnosis :: jsval
  ipa_confidence :: jsnum
  ipa_severity :: jsval
  ipa_isHealthy :: "bool optional"
  ipa_description :: jsval
  ipa_treatment :: jsval

record PlantAnalysis =
  pa_id :: int
  pa_userId :: int
  pa_imagePath :: string
  pa_diagnosis :: jsval
  pa_confidence :: jsnum
  pa_severity :: jsval
  pa_isHealthy :: bool
  pa_description :: jsval
  pa_treatment :: jsval
  pa_createdAt :: "Date option"

record ('c, 'r) InsertDiseaseReport =
  idr_location :: string
  idr_description :: "string optional"
  idr_latitude :: "'c optional"
  idr_longitude :: "'c optional"
  idr_other :: 'r

record ('c, 'r) DiseaseReport =
  dr_id :: int
  dr_location :: string
  dr_description :: "string option"
  dr_latitude :: "'c option"
  dr_longitude :: "'c option"
  dr_other :: 'r
  dr_createdAt :: "Date option"

record 'f InsertUserFeedback =
  ifb_analysisId :: int
  ifb_comment :: "string optional"
  ifb_other :: 'f

record 'f UserFeedback =
  fb_id :: int
  fb_analysisId :: int
  fb_comment :: "string option"
  fb_other :: 'f
  fb_createdAt :: "Date option"

text \<open>\<^verbatim>\<open>v ?? null\<close> on an unvalidated value.\<close>

fun jsOrNull :: "jsval \<Rightarrow> jsval" where
  "jsOrNull JUndefined = JNull"
| "jsOrNull v = v"

subsection \<open>The host language's Map and sort\<close>

text \<open>
  A \<^verbatim>\<open>Map\<close> keeps its entries in insertion order; \<^verbatim>\<open>set\<close> on a key already present
  replaces the value where it stands.
\<close>

type_synonym ('k, 'v) JSMap = "('k \<times> 'v) list"

definition Map_get :: "('k, 'v) JSMap \<Rightarrow> 'k \<Rightarrow> 'v option" where
  "Map_get m k = map_of m k"

definition Map_set :: "('k, 'v) JSMap \<Rightarrow> 'k \<Rightarrow> 'v \<Rightarrow> ('k, 'v) JSMap" where
  "Map_set m k v =
     (if k \<in> fst ` set m then map (\<lambda>(k', v'). if k' = k then (k', v) else (k', v')) m
      else m @ [(k, v)])"

definition Map_values :: "('k, 'v) JSMap \<Rightarrow> 'v list" where
  "Map_values m = map snd m"

text \<open>
  \<^verbatim>\<open>Array.prototype.sort\<close> with a comparator is a stable sort: \<open>a\<close> stays before \<open>b\<close>
  unless \<open>cmp a b > 0\<close>.
\<close>

fun sort_insert :: "('a \<Rightarrow> 'a \<Rightarrow> int) \<Rightarrow> 'a \<Rightarrow> 'a list \<Rightarrow> 'a list" where
  "sort_insert cmp x [] = [x]"
| "sort_insert cmp x (y # ys) =
     (if cmp x y \<le> 0 then x # y # ys else y # sort_insert cmp x ys)"

definition Array_sort :: "('a \<Rightarrow> 'a \<Rightarrow> int) \<Rightarrow> 'a list \<Rightarrow> 'a list" where
  "Array_sort cmp xs = foldr (sort_insert cmp) xs []"

text \<open>\<^verbatim>\<open>d?.getTime() || 0\<close>: the time of a date, and 0 for \<^verbatim>\<open>null\<close> and for the time 0.\<close>

definition getTimeOr0 :: "Date option \<Rightarrow> int" where
  "getTimeOr0 d = (case d of None \<Rightarrow> 0 | Some t \<Rightarrow> if t = 0 then 0 else t)"

text \<open>\<^verbatim>\<open>s.includes(t)\<close>: \<open>t\<close> occurs in \<open>s\<close> as a contiguous piece.\<close>

fun String_includes :: "string \<Rightarrow> string \<Rightarrow> bool" where
  "String_includes [] t = (t = [])"
| "String_includes (c # s) t = (prefix t (c # s) \<or> String_includes s t)"

subsection \<open>The store and its operations\<close>

record ('c, 'r, 'f) MemStorage =
  users :: "(int, User) JSMap"
  plantAnalyses :: "(int, PlantAnalysis) JSMap"
  diseaseReports :: "(int, ('c, 'r) DiseaseReport) JSMap"
  userFeedback :: "(int, 'f UserFeedback) JSMap"
  currentUserId :: int
  currentAnalysisId :: int
  currentReportId :: int
  currentFeedbackId :: int

text \<open>
  The constructor. The counters are numbers of the host language; they are modelled as
  unbounded integers, exact as long as fewer than \<open>2 ^ 53\<close> records are created.
\<close>

definition MemStorage_new :: "('c, 'r, 'f) MemStorage" where
  "MemStorage_new =
     \<lparr> users = [], plantAnalyses = [], diseaseReports = [], userFeedback = [],
       currentUserId = 1, currentAnalysisId = 1, currentReportId = 1,
       currentFeedbackId = 1 \<rparr>"

definition getUser :: "('c, 'r, 'f) MemStorage \<Rightarrow> int \<Rightarrow> User option" where
  "getUser st i = Map_get (users st) i"

definition getUserByUsername :: "('c, 'r, 'f) MemStorage \<Rightarrow> string \<Rightarrow> User option" where
  "getUserByUsername st username =
     find (\<lambda>user. u_username user = username) (Map_values (users st))"

text \<open>Every create operation takes \<open>now\<close>, what \<^verbatim>\<open>new Date()\<close> reads during the call.\<close>

definition createUser ::
  "('c, 'r, 'f) MemStorage \<Rightarrow> Date \<Rightarrow> InsertUser \<Rightarrow> User \<times> ('c, 'r, 'f) MemStorage" where
  "createUser st now insertUser =
     (let i = currentUserId st;
          user = \<lparr> u_id = i,
                   u_username = iu_username insertUser,
                   u_password = iu_password insertUser,
                   u_email = orNull (iu_email insertUser),
                   u_firstName = orNull (iu_firstName insertUser),
                   u_lastName = orNull (iu_lastName insertUser),
                   u_createdAt = Some now \<rparr>
      in (user, st\<lparr> currentUserId := i + 1, users := Map_set (users st) i user \<rparr>))"

definition createPlantAnalysis ::
  "('c, 'r, 'f) MemStorage \<Rightarrow> Date \<Rightarrow> InsertPlantAnalysis
     \<Rightarrow> PlantAnalysis \<times> ('c, 'r, 'f) MemStorage" where
  "createPlantAnalysis st now insertAnalysis =
     (let i = currentAnalysisId st;
          analysis = \<lparr> pa_id = i,
                       pa_userId = ipa_userId insertAnalysis,
                       pa_imagePath = ipa_imagePath insertAnalysis,
                       pa_diagnosis = ipa_diagnosis insertAnalysis,
                       pa_confidence = ipa_confidence insertAnalysis,
                       pa_severity = jsOrNull (ipa_severity insertAnalysis),
                       pa_isHealthy = orElse (ipa_isHealthy insertAnalysis) False,
                       pa_description = jsOrNull (ipa_description insertAnalysis),
                       pa_treatment = jsOrNull (ipa_treatment insertAnalysis),
                       pa_createdAt = Some now \<rparr>
      in (analysis,
          st\<lparr> currentAnalysisId := i + 1,
              plantAnalyses := Map_set (plantAnalyses st) i analysis \<rparr>))"

definition getPlantAnalysesByUser ::
  "('c, 'r, 'f) MemStorage \<Rightarrow> int \<Rightarrow> PlantAnalysis list" where
  "getPlantAnalysesByUser st userId =
     Array_sort (\<lambda>a b. getTimeOr0 (pa_createdAt b) - getTimeOr0 (pa_createdAt a))
       (filter (\<lambda>analysis. pa_userId analysis = userId) (Map_values (plantAnalyses st)))"

definition getPlantAnalysisById ::
  "('c, 'r, 'f) MemStorage \<Rightarrow> int \<Rightarrow> PlantAnalysis option" where
  "getPlantAnalysisById st i = Map_get (plantAnalyses st) i"

definition createDiseaseReport ::
  "('c, 'r, 'f) MemStorage \<Rightarrow> Date \<Rightarrow> ('c, 'r) InsertDiseaseReport
     \<Rightarrow> ('c, 'r) DiseaseReport \<times> ('c, 'r, 'f) MemStorage" where
  "createDiseaseReport st now insertReport =
     (let i = currentReportId st;
          report = \<lparr> dr_id = i,
                     dr_location = idr_location insertReport,
                     dr_description = orNull (idr_description insertReport),
                     dr_latitude = orNull (idr_latitude insertReport),
                     dr_longitude = orNull (idr_longitude insertReport),
                     dr_other = idr_other insertReport,
                     dr_createdAt = Some now \<rparr>
      in (report,
          st\<lparr> currentReportId := i + 1,
              diseaseReports := Map_set (diseaseReports st) i report \<rparr>))"

definition getDiseaseReports ::
  "('c, 'r, 'f) MemStorage \<Rightarrow> ('c, 'r) DiseaseReport list" where
  "getDiseaseReports st =
     Array_sort (\<lambda>a b. getTimeOr0 (dr_createdAt b) - getTimeOr0 (dr_createdAt a))
       (Map_values (diseaseReports st))"

text \<open>
  \<open>toLowerCase\<close> stands for \<^verbatim>\<open>String.prototype.toLowerCase\<close> of the host language,
  which the model takes as given.
\<close>

definition getDiseaseReportsByLocation ::
  "(string \<Rightarrow> string) \<Rightarrow> ('c, 'r, 'f) MemStorage \<Rightarrow> string \<Rightarrow> ('c, 'r) DiseaseReport list" where
  "getDiseaseReportsByLocation toLowerCase st location =
     Array_sort (\<lambda>a b. getTimeOr0 (dr_createdAt b) - getTimeOr0 (dr_createdAt a))
       (filter (\<lambda>report. String_includes (toLowerCase (dr_location report)) (toLowerCase location))
          (Map_values (diseaseReports st)))"

definition createUserFeedback ::
  "('c, 'r, 'f) MemStorage \<Rightarrow> Date \<Rightarrow> 'f InsertUserFeedback
     \<Rightarrow> 'f UserFeedback \<times> ('c, 'r, 'f) MemStorage" where
  "createUserFeedback st now insertFeedback =
     (let i = currentFeedbackId st;
          feedback = \<lparr> fb_id = i,
                       fb_analysisId = ifb_analysisId insertFeedback,
                       fb_comment = orNull (ifb_comment insertFeedback),
                       fb_other = ifb_other insertFeedback,
                       fb_createdAt = Some now \<rparr>
      in (feedback,
          st\<lparr> currentFeedbackId := i + 1,
              userFeedback := Map_set (userFeedback st) i feedback \<rparr>))"

definition getFeedbackByAnalysis ::
  "('c, 'r, 'f) MemStorage \<Rightarrow> int \<Rightarrow> 'f UserFeedback list" where
  "getFeedbackByAnalysis st analysisId =
     filter (\<lambda>feedback. fb_analysisId feedback = analysisId) (Map_values (userFeedback st))"

section \<open>Coercions of the host language\<close>

text \<open>Truthiness, and \<^verbatim>\<open>a || b\<close>: \<open>a\<close> when it is truthy, \<open>b\<close> otherwise.\<close>

fun truthy :: "jsval \<Rightarrow> bool" where
  "truthy JUndefined = False"
| "truthy JNull = False"
| "truthy (JBool b) = b"
| "truthy (JNum n) = (n \<noteq> NaN \<and> n \<noteq> Num 0)"
| "truthy (JStr s) = (s \<noteq> [])"
| "truthy (JArr xs) = True"
| "truthy (JObj kvs) = True"

definition js_or :: "jsval \<Rightarrow> jsval \<Rightarrow> jsval" where
  "js_or a b = (if truthy a then a else b)"

text \<open>
  Reading a property of a value other than \<^verbatim>\<open>null\<close> and \<^verbatim>\<open>undefined\<close>: an own
  property of an object, and \<^verbatim>\<open>undefined\<close> for a name that neither the object nor its
  prototype has (none of the names this program reads is inherited).
\<close>

fun getProp :: "jsval \<Rightarrow> string \<Rightarrow> jsval" where
  "getProp (JObj kvs) k = (case map_of kvs k of Some v \<Rightarrow> v | None \<Rightarrow> JUndefined)"
| "getProp v k = JUndefined"

subsection \<open>Strings to numbers\<close>

text \<open>
  The white space and line terminators that the conversion of a string to a number
  strips from both ends, each as its UTF-8 bytes: U+0009 to U+000D, U+0020, U+00A0,
  U+1680, U+2000 to U+200A, U+2028, U+2029, U+202F, U+205F, U+3000, U+FEFF.
\<close>

definition ws_table :: "string list" where
  "ws_table =
     [[CHR 0x09], [CHR 0x0A], [CHR 0x0B], [CHR 0x0C], [CHR 0x0D], [CHR 0x20],
      [CHR 0xC2, CHR 0xA0], [CHR 0xE1, CHR 0x9A, CHR 0x80],
      [CHR 0xE2, CHR 0x80, CHR 0x80], [CHR 0xE2, CHR 0x80, CHR 0x81],
      [CHR 0xE2, CHR 0x80, CHR 0x82], [CHR 0xE2, CHR 0x80, CHR 0x83],
      [CHR 0xE2, CHR 0x80, CHR 0x84], [CHR 0xE2, CHR 0x80, CHR 0x85],
      [CHR 0xE2, CHR 0x80, CHR 0x86], [CHR 0xE2, CHR 0x80, CHR 0x87],
      [CHR 0xE2, CHR 0x80, CHR 0x88], [CHR 0xE2, CHR 0x80, CHR 0x89],
      [CHR 0xE2, CHR 0x80, CHR 0x8A], [CHR 0xE2, CHR 0x80, CHR 0xA8],
      [CHR 0xE2, CHR 0x80, CHR 0xA9], [CHR 0xE2, CHR 0x80, CHR 0xAF],
      [CHR 0xE2, CHR 0x81, CHR 0x9F], [CHR 0xE3, CHR 0x80, CHR 0x80],
      [CHR 0xEF, CHR 0xBB, CHR 0xBF]]"

text \<open>The number of bytes of the entry of \<open>tbl\<close> that \<open>s\<close> starts with, 0 when there is none.\<close>

definition ws_lead :: "string list \<Rightarrow> string \<Rightarrow> nat" where
  "ws_lead tbl s =
     (case find (\<lambda>w. w \<noteq> [] \<and> prefix w s) tbl of None \<Rightarrow> 0 | Some w \<Rightarrow> length w)"

function trim_lead :: "string list \<Rightarrow> string \<Rightarrow> string" where
  "trim_lead tbl s = (if ws_lead tbl s = 0 then s else trim_lead tbl (drop (ws_lead tbl s) s))"
  by pat_completeness auto
termination
proof (relation "measure (\<lambda>(tbl, s). length s)")
  show "wf (measure (\<lambda>(tbl, s). length s))" by simp
next
  fix tbl :: "string list" and s :: string
  assume "ws_lead tbl s \<noteq> 0"
  then obtain w where "w \<noteq> []" "prefix w s"
    by (auto simp: ws_lead_def find_Some_iff split: option.splits)
  then have "s \<noteq> []" by auto
  with \<open>ws_lead tbl s \<noteq> 0\<close>
  show "((tbl, drop (ws_lead tbl s) s), (tbl, s)) \<in> measure (\<lambda>(tbl, s). length s)"
    by simp
qed

definition trim :: "string \<Rightarrow> string" where
  "trim s = rev (trim_lead (map rev ws_table) (rev (trim_lead ws_table s)))"

text \<open>The value of a digit in bases up to 16, and of a non-empty run of digits.\<close>

definition digit_of :: "char \<Rightarrow> nat option" where
  "digit_of c =
     (let n = (of_char c :: nat) in
      if 48 \<le> n \<and> n \<le> 57 then Some (n - 48)
      else if 97 \<le> n \<and> n \<le> 102 then Some (n - 87)
      else if 65 \<le> n \<and> n \<le> 70 then Some (n - 55)
      else None)"

definition is_digit :: "nat \<Rightarrow> char \<Rightarrow> bool" where
  "is_digit b c = (case digit_of c of None \<Rightarrow> False | Some d \<Rightarrow> d < b)"

definition digits_value :: "nat \<Rightarrow> string \<Rightarrow> nat option" where
  "digits_value b ds =
     (if ds \<noteq> [] \<and> list_all (is_digit b) ds
      then Some (foldl (\<lambda>a c. a * b + (case digit_of c of None \<Rightarrow> 0 | Some d \<Rightarrow> d)) 0 ds)
      else None)"

text \<open>An optional exponent part: nothing, or \<open>e\<close> or \<open>E\<close>, an optional sign and digits.\<close>

definition ExponentPart :: "string \<Rightarrow> int option" where
  "ExponentPart r =
     (case r of
        [] \<Rightarrow> Some 0
      | c # t \<Rightarrow>
          if c = CHR ''e'' \<or> c = CHR ''E'' then
            (case t of
               [] \<Rightarrow> None
             | d # u \<Rightarrow>
                 if d = CHR ''+'' then map_option int (digits_value 10 u)
                 else if d = CHR ''-'' then map_option (\<lambda>n. - int n) (digits_value 10 u)
                 else map_option int (digits_value 10 t))
          else None)"

text \<open>
  An unsigned decimal literal: \<open>Infinity\<close>, or digits with an optional fraction and
  exponent, at least one digit before or after the point. The value is the decimal the
  literal denotes; the host rounds it to the nearest double (to an infinity beyond the
  largest one), which this model leaves out: rounding is monotone and keeps 0 and 1,
  and this program only compares the number with 0 and 1.
\<close>

definition StrUnsignedDecimalLiteral :: "string \<Rightarrow> jsnum" where
  "StrUnsignedDecimalLiteral u =
     (if u = ''Infinity'' then PInf
      else
        let ip = takeWhile (is_digit 10) u;
            r1 = dropWhile (is_digit 10) u;
            dot = (r1 \<noteq> [] \<and> hd r1 = CHR ''.'');
            fp = (if dot then takeWhile (is_digit 10) (tl r1) else []);
            r2 = (if dot then dropWhile (is_digit 10) (tl r1) else r1)
        in if ip = [] \<and> fp = [] then NaN
           else
             (case (digits_value 10 (ip @ fp), ExponentPart r2) of
                (Some m, Some e) \<Rightarrow>
                  (let e' = e - int (length fp) in
                   Num (if 0 \<le> e' then of_nat m * 10 ^ nat e'
                        else of_nat m / 10 ^ nat (- e')))
              | _ \<Rightarrow> NaN))"

fun negate :: "jsnum \<Rightarrow> jsnum" where
  "negate NaN = NaN"
| "negate NInf = PInf"
| "negate (Num q) = Num (- q)"
| "negate PInf = NInf"

definition radix_literal :: "nat \<Rightarrow> string \<Rightarrow> jsnum" where
  "radix_literal b ds = (case digits_value b ds of None \<Rightarrow> NaN | Some n \<Rightarrow> Num (of_nat n))"

text \<open>
  The conversion of a string to a number: the trimmed string is empty (0), a binary,
  octal or hexadecimal integer literal, or a decimal literal with an optional sign;
  anything else is NaN.
\<close>

definition StringToNumber :: "string \<Rightarrow> jsnum" where
  "StringToNumber s =
     (let t = trim s in
      if t = [] then Num 0
      else if prefix ''0x'' t \<or> prefix ''0X'' t then radix_literal 16 (drop 2 t)
      else if prefix ''0o'' t \<or> prefix ''0O'' t then radix_literal 8 (drop 2 t)
      else if prefix ''0b'' t \<or> prefix ''0B'' t then radix_literal 2 (drop 2 t)
      else if hd t = CHR ''+'' then StrUnsignedDecimalLiteral (tl t)
      else if hd t = CHR ''-'' then negate (StrUnsignedDecimalLiteral (tl t))
      else StrUnsignedDecimalLiteral t)"

subsection \<open>Values to numbers\<close>

text \<open>
  Converting an object or an array to a primitive calls its \<^verbatim>\<open>toString\<close>. A parsed
  object inherits one that returns \<^verbatim>\<open>[object Object]\<close>, unless the JSON gave it an own
  property of that name, which is no function: then the conversion throws a TypeError.
  An array joins the strings of its elements with commas (nothing for \<^verbatim>\<open>null\<close>), and
  throws when one of them does.
\<close>

fun ToString_throws :: "jsval \<Rightarrow> bool" where
  "ToString_throws (JObj kvs) = (map_of kvs ''toString'' \<noteq> None)"
| "ToString_throws (JArr xs) = list_ex ToString_throws xs"
| "ToString_throws v = False"

text \<open>
  The number that the joined string of an array converts to, when nothing throws: the
  empty string is 0; a string with a comma is no numeric literal; the string of a
  single number converts back to that number.
\<close>

fun JoinToNumber :: "jsval list \<Rightarrow> jsnum"
  and ElementToNumber :: "jsval \<Rightarrow> jsnum" where
  "JoinToNumber [] = Num 0"
| "JoinToNumber [x] = ElementToNumber x"
| "JoinToNumber (x # y # zs) = NaN"
| "ElementToNumber JUndefined = Num 0"
| "ElementToNumber JNull = Num 0"
| "ElementToNumber (JBool b) = NaN"
| "ElementToNumber (JNum n) = n"
| "ElementToNumber (JStr s) = StringToNumber s"
| "ElementToNumber (JArr xs) = JoinToNumber xs"
| "ElementToNumber (JObj kvs) = NaN"

text \<open>\<open>ToNumber\<close>; \<open>None\<close> stands for the TypeError.\<close>

definition ToNumber :: "jsval \<Rightarrow> jsnum option" where
  "ToNumber v =
     (case v of
        JUndefined \<Rightarrow> Some NaN
      | JNull \<Rightarrow> Some (Num 0)
      | JBool b \<Rightarrow> Some (Num (if b then 1 else 0))
      | JNum n \<Rightarrow> Some n
      | JStr s \<Rightarrow> Some (StringToNumber s)
      | JArr xs \<Rightarrow> if ToString_throws v then None else Some (JoinToNumber xs)
      | JObj kvs \<Rightarrow> if ToString_throws v then None else Some NaN)"

text \<open>
  \<^verbatim>\<open>Math.min\<close> and \<^verbatim>\<open>Math.max\<close> of two numbers: NaN when either is NaN, else the
  smaller (larger) in the order \<open>-\<infinity> < q < \<infinity>\<close>.
\<close>

fun jsnum_le :: "jsnum \<Rightarrow> jsnum \<Rightarrow> bool" where
  "jsnum_le NaN b = False"
| "jsnum_le a NaN = False"
| "jsnum_le NInf b = True"
| "jsnum_le a PInf = True"
| "jsnum_le (Num p) (Num q) = (p \<le> q)"
| "jsnum_le a b = False"

definition Math_min :: "jsnum \<Rightarrow> jsnum \<Rightarrow> jsnum" where
  "Math_min a b = (if a = NaN \<or> b = NaN then NaN else if jsnum_le a b then a else b)"

definition Math_max :: "jsnum \<Rightarrow> jsnum \<Rightarrow> jsnum" where
  "Math_max a b = (if a = NaN \<or> b = NaN then NaN else if jsnum_le a b then b else a)"

section \<open>The AI wrapper (server/openai-service.ts)\<close>

record DiseaseDetectionResult =
  disease :: jsval
  confidence :: jsnum
  severity :: jsval
  isHealthy :: bool
  description :: jsval
  treatment :: jsval

text \<open>
  What the call of the hosted model gives: it rejects (with a message), it answers
  without a first choice, or its first choice carries a message. The content of the
  message is falsy (\<^verbatim>\<open>null\<close> or the empty string), or a text, of which the model keeps
  what \<^verbatim>\<open>JSON.parse\<close> makes of it: a value, or \<open>None\<close> for a SyntaxError.
\<close>

datatype content = Falsy | Text "jsval option"

datatype completion = Rejected string | NoChoice | Message content

datatype failure = ApiError string | SyntaxError | TypeError | StorageFailure string

text \<open>\<^verbatim>\<open>JSON.parse(content || '{}')\<close>: a falsy content parses as the empty object.\<close>

definition parse_content :: "content \<Rightarrow> jsval option" where
  "parse_content c = (case c of Falsy \<Rightarrow> Some (JObj []) | Text p \<Rightarrow> p)"

text \<open>
  \<open>create\<close> is \<^verbatim>\<open>openai.chat.completions.create\<close>, from the image sent to the answer.
  Every exception of the body is caught and thrown again as one Error, \<open>Inl\<close> here; the
  only reads that throw are those of a property of \<^verbatim>\<open>null\<close> and the conversion of the
  confidence to a number.
\<close>

definition analyzePlantImage ::
  "(string \<Rightarrow> completion) \<Rightarrow> string \<Rightarrow> failure + DiseaseDetectionResult" where
  "analyzePlantImage create base64Image =
     (case create base64Image of
        Rejected msg \<Rightarrow> Inl (ApiError msg)
      | NoChoice \<Rightarrow> Inl TypeError
      | Message c \<Rightarrow>
          (case parse_content c of
             None \<Rightarrow> Inl SyntaxError
           | Some result \<Rightarrow>
               if result = JNull \<or> result = JUndefined then Inl TypeError
               else
                 (case ToNumber (js_or (getProp result ''confidence'') (JNum (Num 0))) of
                    None \<Rightarrow> Inl TypeError
                  | Some c \<Rightarrow>
                      Inr \<lparr> disease = js_or (getProp result ''disease'') (JStr ''Unknown''),
                            confidence = Math_max (Num 0) (Math_min (Num 1) c),
                            severity =
                              (if getProp result ''severity'' = JStr ''null'' then JNull
                               else getProp result ''severity''),
                            isHealthy = (getProp result ''isHealthy'' = JBool True),
                            description =
                              js_or (getProp result ''description'')
                                (JStr ''No description available''),
                            treatment =
                              js_or (getProp result ''treatment'')
                                (JStr ''No treatment recommendations available'') \<rparr>)))"

section \<open>The route layer (server/routes.ts)\<close>

subsection \<open>The storage interface\<close>

text \<open>
  The routes call the object \<open>storage\<close> through the interface \<open>IStorage\<close>
  (server/storage.ts); the exported object is a \<open>DatabaseStorage\<close>, whose methods hand
  every call to a database client that is not part of these sources. The handlers are
  therefore modelled over any implementation of the interface, on a state \<open>'s\<close> of
  its own. A method returns a promise: it resolves (\<open>Inr\<close>) or rejects (\<open>Inl\<close>, with
  the message). The methods that create a record take the reading of the clock and
  return the state after the call.
\<close>

record ('s, 'c, 'r, 'f) IStorage =
  S_getUser :: "'s \<Rightarrow> int \<Rightarrow> string + User option"
  S_getUserByUsername :: "'s \<Rightarrow> string \<Rightarrow> string + User option"
  S_createUser :: "'s \<Rightarrow> Date \<Rightarrow> InsertUser \<Rightarrow> (string + User) \<times> 's"
  S_createPlantAnalysis ::
    "'s \<Rightarrow> Date \<Rightarrow> InsertPlantAnalysis \<Rightarrow> (string + PlantAnalysis) \<times> 's"
  S_getPlantAnalysesByUser :: "'s \<Rightarrow> int \<Rightarrow> string + PlantAnalysis list"
  S_getPlantAnalysisById :: "'s \<Rightarrow> int option \<Rightarrow> string + PlantAnalysis option"
  S_createDiseaseReport ::
    "'s \<Rightarrow> Date \<Rightarrow> ('c, 'r) InsertDiseaseReport \<Rightarrow> (string + ('c, 'r) DiseaseReport) \<times> 's"
  S_getDiseaseReports :: "'s \<Rightarrow> string + ('c, 'r) DiseaseReport list"
  S_getDiseaseReportsByLocation :: "'s \<Rightarrow> string \<Rightarrow> string + ('c, 'r) DiseaseReport list"
  S_createUserFeedback ::
    "'s \<Rightarrow> Date \<Rightarrow> 'f InsertUserFeedback \<Rightarrow> (string + 'f UserFeedback) \<times> 's"
  S_getFeedbackByAnalysis :: "'s \<Rightarrow> int \<Rightarrow> string + 'f UserFeedback list"

text \<open>
  \<open>MemStorage\<close> as an implementation of the interface: its promises always resolve.
  The identifier of the single-analysis route is \<^verbatim>\<open>parseInt\<close> of a path segment, \<open>None\<close>
  when that is no finite integer; such a number is no key of the map.
\<close>

definition MemStorage_impl ::
  "(string \<Rightarrow> string) \<Rightarrow> (('c, 'r, 'f) MemStorage, 'c, 'r, 'f) IStorage" where
  "MemStorage_impl toLowerCase =
     \<lparr> S_getUser = (\<lambda>st i. Inr (getUser st i)),
       S_getUserByUsername = (\<lambda>st username. Inr (getUserByUsername st username)),
       S_createUser =
         (\<lambda>st now insertUser. case createUser st now insertUser of (u, st') \<Rightarrow> (Inr u, st')),
       S_createPlantAnalysis =
         (\<lambda>st now a. case createPlantAnalysis st now a of (x, st') \<Rightarrow> (Inr x, st')),
       S_getPlantAnalysesByUser = (\<lambda>st userId. Inr (getPlantAnalysesByUser st userId)),
       S_getPlantAnalysisById =
         (\<lambda>st i. Inr (case i of None \<Rightarrow> None | Some k \<Rightarrow> getPlantAnalysisById st k)),
       S_createDiseaseReport =
         (\<lambda>st now r. case createDiseaseReport st now r of (x, st') \<Rightarrow> (Inr x, st')),
       S_getDiseaseReports = (\<lambda>st. Inr (getDiseaseReports st)),
       S_getDiseaseReportsByLocation =
         (\<lambda>st location. Inr (getDiseaseReportsByLocation toLowerCase st location)),
       S_createUserFeedback =
         (\<lambda>st now fb. case createUserFeedback st now fb of (x, st') \<Rightarrow> (Inr x, st')),
       S_getFeedbackByAnalysis = (\<lambda>st analysisId. Inr (getFeedbackByAnalysis st analysisId)) \<rparr>"

text \<open>The methods of the interface, to record which of them a handler called.\<close>

datatype storage_op =
    OpGetUser
  | OpGetUserByUsername
  | OpCreateUser
  | OpCreatePlantAnalysis
  | OpGetPlantAnalysesByUser
  | OpGetPlantAnalysisById
  | OpCreateDiseaseReport
  | OpGetDiseaseReports
  | OpGetDiseaseReportsByLocation
  | OpCreateUserFeedback
  | OpGetFeedbackByAnalysis

subsection \<open>Requests, sessions and responses\<close>

text \<open>The session data the routes declare: \<^verbatim>\<open>userId?: number\<close>.\<close>

record SessionData =
  userId :: "int option"

text \<open>\<^verbatim>\<open>!req.session.userId\<close>: no user id, or the number 0.\<close>

definition not_authenticated :: "SessionData \<Rightarrow> bool" where
  "not_authenticated sess = (case userId sess of None \<Rightarrow> True | Some i \<Rightarrow> i = 0)"

text \<open>
  The uploaded file as the upload middleware leaves it in \<^verbatim>\<open>req.file\<close>: its name and
  the base64 text of its bytes. The middleware runs before the handler of
  \<^verbatim>\<open>POST /api/analyses\<close> and calls no storage method; an upload that it refuses (no
  image, or more than 5 MB) never reaches the handler and is no request of this model.
\<close>

record upload_file =
  originalname :: string
  buffer_base64 :: string

text \<open>
  A request: its body (of a type \<open>'b\<close> left open), the uploaded file if there is one,
  and \<^verbatim>\<open>parseInt(req.params.id)\<close>, \<open>None\<close> when that is no finite integer.
\<close>

record 'b request =
  req_body :: 'b
  req_file :: "upload_file option"
  req_id :: "int option"

text \<open>
  The schemas of \<^verbatim>\<open>@shared/schema\<close>, which are not part of these sources: each
  \<^verbatim>\<open>parse\<close> returns the validated value or throws (\<open>None\<close>). The two insert schemas
  are applied to the body extended by the session's user id.
\<close>

record SignupData = InsertUser +
  confirmPassword :: string

record ('b, 'c, 'r, 'f) schemas =
  signinSchema :: "'b \<Rightarrow> (string \<times> string) option"
  signupSchema :: "'b \<Rightarrow> SignupData option"
  insertDiseaseReportSchema :: "'b \<Rightarrow> int \<Rightarrow> ('c, 'r) InsertDiseaseReport option"
  insertUserFeedbackSchema :: "'b \<Rightarrow> int \<Rightarrow> 'f InsertUserFeedback option"

text \<open>What a request meets outside the program: the clock and the hosted model.\<close>

record env =
  clock :: Date
  openai_create :: "string \<Rightarrow> completion"

text \<open>A user as the routes send it: \<^verbatim>\<open>{ ...user, password: undefined }\<close>.\<close>

record PublicUser =
  pu_id :: int
  pu_username :: string
  pu_email :: "string option"
  pu_firstName :: "string option"
  pu_lastName :: "string option"
  pu_createdAt :: "Date option"

definition without_password :: "User \<Rightarrow> PublicUser" where
  "without_password u =
     \<lparr> pu_id = u_id u, pu_username = u_username u, pu_email = u_email u,
       pu_firstName = u_firstName u, pu_lastName = u_lastName u,
       pu_createdAt = u_createdAt u \<rparr>"

datatype ('c, 'r, 'f) body =
    MessageBody string
  | AnalysisFailed failure
  | UserEnvelope PublicUser
  | UserBody PublicUser
  | AnalysisBody PlantAnalysis
  | AnalysesBody "PlantAnalysis list"
  | ReportBody "('c, 'r) DiseaseReport"
  | ReportsBody "('c, 'r) DiseaseReport list"
  | FeedbackBody "'f UserFeedback"
  | StatsBody nat nat nat nat

text \<open>
  A handler sends a response, or its promise rejects with nothing sent (a storage call
  that rejects outside a \<^verbatim>\<open>try\<close>).
\<close>

datatype ('c, 'r, 'f) reply = Sent nat "('c, 'r, 'f) body" | Unhandled string

text \<open>
  The outcome of handling one request: the reply, the session and the storage state
  after it, and the storage methods called, in order.
\<close>

record ('s, 'c, 'r, 'f) outcome =
  reply :: "('c, 'r, 'f) reply"
  session_after :: SessionData
  storage_after :: 's
  calls :: "storage_op list"

definition respond ::
  "nat \<Rightarrow> ('c, 'r, 'f) body \<Rightarrow> SessionData \<Rightarrow> 's \<Rightarrow> storage_op list
     \<Rightarrow> ('s, 'c, 'r, 'f) outcome" where
  "respond code b sess st ops =
     \<lparr> reply = Sent code b, session_after = sess, storage_after = st, calls = ops \<rparr>"

definition not_authenticated_401 :: "SessionData \<Rightarrow> 's \<Rightarrow> ('s, 'c, 'r, 'f) outcome" where
  "not_authenticated_401 sess st = respond 401 (MessageBody ''Not authenticated'') sess st []"

subsection \<open>The handlers\<close>

definition post_signin ::
  "('b, 'c, 'r, 'f) schemas \<Rightarrow> ('s, 'c, 'r, 'f) IStorage \<Rightarrow> 'b request \<Rightarrow> SessionData \<Rightarrow> 's
     \<Rightarrow> ('s, 'c, 'r, 'f) outcome" where
  "post_signin Z S req sess st =
     (case signinSchema Z (req_body req) of
        None \<Rightarrow> respond 400 (MessageBody ''Invalid request'') sess st []
      | Some (username, password) \<Rightarrow>
          (case S_getUserByUsername S st username of
             Inl e \<Rightarrow> respond 400 (MessageBody ''Invalid request'') sess st [OpGetUserByUsername]
           | Inr None \<Rightarrow>
               respond 401 (MessageBody ''Invalid credentials'') sess st [OpGetUserByUsername]
           | Inr (Some user) \<Rightarrow>
               if u_password user \<noteq> password
               then respond 401 (MessageBody ''Invalid credentials'') sess st
                      [OpGetUserByUsername]
               else respond 200 (UserEnvelope (without_password user))
                      (sess\<lparr> userId := Some (u_id user) \<rparr>) st [OpGetUserByUsername]))"

definition post_signup ::
  "('b, 'c, 'r, 'f) schemas \<Rightarrow> ('s, 'c, 'r, 'f) IStorage \<Rightarrow> env \<Rightarrow> 'b request \<Rightarrow> SessionData
     \<Rightarrow> 's \<Rightarrow> ('s, 'c, 'r, 'f) outcome" where
  "post_signup Z S E req sess st =
     (case signupSchema Z (req_body req) of
        None \<Rightarrow> respond 400 (MessageBody ''Invalid request'') sess st []
      | Some parsed \<Rightarrow>
          (let userData = InsertUser.truncate parsed in
           case S_getUserByUsername S st (iu_username userData) of
             Inl e \<Rightarrow> respond 400 (MessageBody ''Invalid request'') sess st [OpGetUserByUsername]
           | Inr (Some existingUser) \<Rightarrow>
               respond 400 (MessageBody ''Username already exists'') sess st
                 [OpGetUserByUsername]
           | Inr None \<Rightarrow>
               (case S_createUser S st (clock E) userData of
                  (Inl e, st') \<Rightarrow>
                    respond 400 (MessageBody ''Invalid request'') sess st'
                      [OpGetUserByUsername, OpCreateUser]
                | (Inr user, st') \<Rightarrow>
                    respond 200 (UserEnvelope (without_password user))
                      (sess\<lparr> userId := Some (u_id user) \<rparr>) st'
                      [OpGetUserByUsername, OpCreateUser])))"

text \<open>\<^verbatim>\<open>req.session.destroy\<close>: the session is gone, and with it its user id.\<close>

definition post_signout :: "SessionData \<Rightarrow> 's \<Rightarrow> ('s, 'c, 'r, 'f) outcome" where
  "post_signout sess st =
     respond 200 (MessageBody ''Signed out successfully'') (sess\<lparr> userId := None \<rparr>) st []"

definition get_auth_user ::
  "('s, 'c, 'r, 'f) IStorage \<Rightarrow> SessionData \<Rightarrow> 's \<Rightarrow> ('s, 'c, 'r, 'f) outcome" where
  "get_auth_user S sess st =
     (if not_authenticated sess then not_authenticated_401 sess st
      else
        (case S_getUser S st (the (userId sess)) of
           Inl e \<Rightarrow>
             \<lparr> reply = Unhandled e, session_after = sess, storage_after = st,
               calls = [OpGetUser] \<rparr>
         | Inr None \<Rightarrow> respond 401 (MessageBody ''User not found'') sess st [OpGetUser]
         | Inr (Some user) \<Rightarrow> respond 200 (UserBody (without_password user)) sess st [OpGetUser]))"

definition post_analyses ::
  "('s, 'c, 'r, 'f) IStorage \<Rightarrow> env \<Rightarrow> 'b request \<Rightarrow> SessionData \<Rightarrow> 's
     \<Rightarrow> ('s, 'c, 'r, 'f) outcome" where
  "post_analyses S E req sess st =
     (if not_authenticated sess then not_authenticated_401 sess st
      else
        (case req_file req of
           None \<Rightarrow> respond 400 (MessageBody ''No image file provided'') sess st []
         | Some file \<Rightarrow>
             (case analyzePlantImage (openai_create E) (buffer_base64 file) of
                Inl err \<Rightarrow> respond 500 (AnalysisFailed err) sess st []
              | Inr aiResult \<Rightarrow>
                  (case S_createPlantAnalysis S st (clock E)
                          \<lparr> ipa_userId = the (userId sess),
                            ipa_imagePath = ''/uploads/'' @ originalname file,
                            ipa_diagnosis = disease aiResult,
                            ipa_confidence = confidence aiResult,
                            ipa_severity = severity aiResult,
                            ipa_isHealthy = Value (isHealthy aiResult),
                            ipa_description = description aiResult,
                            ipa_treatment = treatment aiResult \<rparr> of
                     (Inl e, st') \<Rightarrow>
                       respond 500 (AnalysisFailed (StorageFailure e)) sess st'
                         [OpCreatePlantAnalysis]
                   | (Inr analysis, st') \<Rightarrow>
                       respond 200 (AnalysisBody analysis) sess st' [OpCreatePlantAnalysis]))))"

definition get_analyses ::
  "('s, 'c, 'r, 'f) IStorage \<Rightarrow> SessionData \<Rightarrow> 's \<Rightarrow> ('s, 'c, 'r, 'f) outcome" where
  "get_analyses S sess st =
     (if not_authenticated sess then not_authenticated_401 sess st
      else
        (case S_getPlantAnalysesByUser S st (the (userId sess)) of
           Inl e \<Rightarrow>
             \<lparr> reply = Unhandled e, session_after = sess, storage_after = st,
               calls = [OpGetPlantAnalysesByUser] \<rparr>
         | Inr analyses \<Rightarrow>
             respond 200 (AnalysesBody analyses) sess st [OpGetPlantAnalysesByUser]))"

definition get_analysis_by_id ::
  "('s, 'c, 'r, 'f) IStorage \<Rightarrow> 'b request \<Rightarrow> SessionData \<Rightarrow> 's
     \<Rightarrow> ('s, 'c, 'r, 'f) outcome" where
  "get_analysis_by_id S req sess st =
     (if not_authenticated sess then not_authenticated_401 sess st
      else
        (case S_getPlantAnalysisById S st (req_id req) of
           Inl e \<Rightarrow>
             \<lparr> reply = Unhandled e, session_after = sess, storage_after = st,
               calls = [OpGetPlantAnalysisById] \<rparr>
         | Inr None \<Rightarrow>
             respond 404 (MessageBody ''Analysis not found'') sess st [OpGetPlantAnalysisById]
         | Inr (Some analysis) \<Rightarrow>
             if Some (pa_userId analysis) \<noteq> userId sess
             then respond 404 (MessageBody ''Analysis not found'') sess st
                    [OpGetPlantAnalysisById]
             else respond 200 (AnalysisBody analysis) sess st [OpGetPlantAnalysisById]))"

definition post_disease_reports ::
  "('b, 'c, 'r, 'f) schemas \<Rightarrow> ('s, 'c, 'r, 'f) IStorage \<Rightarrow> env \<Rightarrow> 'b request \<Rightarrow> SessionData
     \<Rightarrow> 's \<Rightarrow> ('s, 'c, 'r, 'f) outcome" where
  "post_disease_reports Z S E req sess st =
     (if not_authenticated sess then not_authenticated_401 sess st
      else
        (case insertDiseaseReportSchema Z (req_body req) (the (userId sess)) of
           None \<Rightarrow> respond 400 (MessageBody ''Invalid request'') sess st []
         | Some reportData \<Rightarrow>
             (case S_createDiseaseReport S st (clock E) reportData of
                (Inl e, st') \<Rightarrow>
                  respond 400 (MessageBody ''Invalid request'') sess st' [OpCreateDiseaseReport]
              | (Inr report, st') \<Rightarrow>
                  respond 200 (ReportBody report) sess st' [OpCreateDiseaseReport])))"

definition get_disease_reports ::
  "('s, 'c, 'r, 'f) IStorage \<Rightarrow> SessionData \<Rightarrow> 's \<Rightarrow> ('s, 'c, 'r, 'f) outcome" where
  "get_disease_reports S sess st =
     (case S_getDiseaseReports S st of
        Inl e \<Rightarrow>
          \<lparr> reply = Unhandled e, session_after = sess, storage_after = st,
            calls = [OpGetDiseaseReports] \<rparr>
      | Inr reports \<Rightarrow> respond 200 (ReportsBody reports) sess st [OpGetDiseaseReports])"

definition post_feedback ::
  "('b, 'c, 'r, 'f) schemas \<Rightarrow> ('s, 'c, 'r, 'f) IStorage \<Rightarrow> env \<Rightarrow> 'b request \<Rightarrow> SessionData
     \<Rightarrow> 's \<Rightarrow> ('s, 'c, 'r, 'f) outcome" where
  "post_feedback Z S E req sess st =
     (if not_authenticated sess then not_authenticated_401 sess st
      else
        (case insertUserFeedbackSchema Z (req_body req) (the (userId sess)) of
           None \<Rightarrow> respond 400 (MessageBody ''Invalid request'') sess st []
         | Some feedbackData \<Rightarrow>
             (case S_createUserFeedback S st (clock E) feedbackData of
                (Inl e, st') \<Rightarrow>
                  respond 400 (MessageBody ''Invalid request'') sess st' [OpCreateUserFeedback]
              | (Inr feedback, st') \<Rightarrow>
                  respond 200 (FeedbackBody feedback) sess st' [OpCreateUserFeedback])))"

text \<open>The statistics: how many analyses, how many healthy, how many not, and 15.\<close>

definition get_stats ::
  "('s, 'c, 'r, 'f) IStorage \<Rightarrow> SessionData \<Rightarrow> 's \<Rightarrow> ('s, 'c, 'r, 'f) outcome" where
  "get_stats S sess st =
     (if not_authenticated sess then not_authenticated_401 sess st
      else
        (case S_getPlantAnalysesByUser S st (the (userId sess)) of
           Inl e \<Rightarrow>
             \<lparr> reply = Unhandled e, session_after = sess, storage_after = st,
               calls = [OpGetPlantAnalysesByUser] \<rparr>
         | Inr analyses \<Rightarrow>
             (let healthyCount = length (filter pa_isHealthy analyses);
                  diseasedCount = length analyses - healthyCount
              in respond 200 (StatsBody (length analyses) healthyCount diseasedCount 15)
                   sess st [OpGetPlantAnalysesByUser])))"

subsection \<open>The registered routes\<close>

datatype route =
    PostAuthSignin
  | PostAuthSignup
  | PostAuthSignout
  | GetAuthUser
  | PostAnalyses
  | GetAnalyses
  | GetAnalysisById
  | PostDiseaseReports
  | GetDiseaseReports
  | PostFeedback
  | GetStats

fun handle ::
  "('b, 'c, 'r, 'f) schemas \<Rightarrow> ('s, 'c, 'r, 'f) IStorage \<Rightarrow> env \<Rightarrow> route \<Rightarrow> 'b request
     \<Rightarrow> SessionData \<Rightarrow> 's \<Rightarrow> ('s, 'c, 'r, 'f) outcome" where
  "handle Z S E PostAuthSignin req sess st = post_signin Z S req sess st"
| "handle Z S E PostAuthSignup req sess st = post_signup Z S E req sess st"
| "handle Z S E PostAuthSignout req sess st = post_signout sess st"
| "handle Z S E GetAuthUser req sess st = get_auth_user S sess st"
| "handle Z S E PostAnalyses req sess st = post_analyses S E req sess st"
| "handle Z S E GetAnalyses req sess st = get_analyses S sess st"
| "handle Z S E GetAnalysisById req sess st = get_analysis_by_id S req sess st"
| "handle Z S E PostDiseaseReports req sess st = post_disease_reports Z S E req sess st"
| "handle Z S E GetDiseaseReports req sess st = get_disease_reports S sess st"
| "handle Z S E PostFeedback req sess st = post_feedback Z S E req sess st"
| "handle Z S E GetStats req sess st = get_stats S sess st"

text \<open>The routes whose handler starts with the session check.\<close>

fun session_checked :: "route \<Rightarrow> bool" where
  "session_checked PostAuthSignin = False"
| "session_checked PostAuthSignup = False"
| "session_checked PostAuthSignout = False"
| "session_checked GetDiseaseReports = False"
| "session_checked r = True"

text \<open>
  Requests served one after the other, each with the session it arrives with; the
  storage state a sequence of requests leaves behind.
\<close>

fun serve ::
  "('b, 'c, 'r, 'f) schemas \<Rightarrow> ('s, 'c, 'r, 'f) IStorage \<Rightarrow> 's
     \<Rightarrow> (env \<times> route \<times> 'b request \<times> SessionData) list \<Rightarrow> 's" where
  "serve Z S st [] = st"
| "serve Z S st ((E, r, req, sess) # rest) =
     serve Z S (storage_after (handle Z S E r req sess st)) rest"

section \<open>Sequences of storage calls\<close>

text \<open>A call of a method of \<open>MemStorage\<close> with its arguments, and what it returns.\<close>

datatype ('c, 'r, 'f) storage_call =
    CallGetUser int
  | CallGetUserByUsername string
  | CallCreateUser Date InsertUser
  | CallCreatePlantAnalysis Date InsertPlantAnalysis
  | CallGetPlantAnalysesByUser int
  | CallGetPlantAnalysisById int
  | CallCreateDiseaseReport Date "('c, 'r) InsertDiseaseReport"
  | CallGetDiseaseReports
  | CallGetDiseaseReportsByLocation string
  | CallCreateUserFeedback Date "'f InsertUserFeedback"
  | CallGetFeedbackByAnalysis int

datatype ('c, 'r, 'f) storage_result =
    UserResult "User option"
  | CreatedUser User
  | CreatedAnalysis PlantAnalysis
  | AnalysesResult "PlantAnalysis list"
  | AnalysisResult "PlantAnalysis option"
  | CreatedReport "('c, 'r) DiseaseReport"
  | ReportsResult "('c, 'r) DiseaseReport list"
  | CreatedFeedback "'f UserFeedback"
  | FeedbackResult "'f UserFeedback list"

fun MemStorage_call ::
  "(string \<Rightarrow> string) \<Rightarrow> ('c, 'r, 'f) MemStorage \<Rightarrow> ('c, 'r, 'f) storage_call
     \<Rightarrow> ('c, 'r, 'f) storage_result \<times> ('c, 'r, 'f) MemStorage" where
  "MemStorage_call lc st (CallGetUser i) = (UserResult (getUser st i), st)"
| "MemStorage_call lc st (CallGetUserByUsername n) = (UserResult (getUserByUsername st n), st)"
| "MemStorage_call lc st (CallCreateUser t u) =
     (case createUser st t u of (x, st') \<Rightarrow> (CreatedUser x, st'))"
| "MemStorage_call lc st (CallCreatePlantAnalysis t a) =
     (case createPlantAnalysis st t a of (x, st') \<Rightarrow> (CreatedAnalysis x, st'))"
| "MemStorage_call lc st (CallGetPlantAnalysesByUser i) =
     (AnalysesResult (getPlantAnalysesByUser st i), st)"
| "MemStorage_call lc st (CallGetPlantAnalysisById i) =
     (AnalysisResult (getPlantAnalysisById st i), st)"
| "MemStorage_call lc st (CallCreateDiseaseReport t r) =
     (case createDiseaseReport st t r of (x, st') \<Rightarrow> (CreatedReport x, st'))"
| "MemStorage_call lc st CallGetDiseaseReports = (ReportsResult (getDiseaseReports st), st)"
| "MemStorage_call lc st (CallGetDiseaseReportsByLocation l) =
     (ReportsResult (getDiseaseReportsByLocation lc st l), st)"
| "MemStorage_call lc st (CallCreateUserFeedback t fb) =
     (case createUserFeedback st t fb of (x, st') \<Rightarrow> (CreatedFeedback x, st'))"
| "MemStorage_call lc st (CallGetFeedbackByAnalysis i) =
     (FeedbackResult (getFeedbackByAnalysis st i), st)"

text \<open>A sequence of calls: the results in order, and the final state.\<close>

fun MemStorage_run ::
  "(string \<Rightarrow> string) \<Rightarrow> ('c, 'r, 'f) MemStorage \<Rightarrow> ('c, 'r, 'f) storage_call list
     \<Rightarrow> ('c, 'r, 'f) storage_result list \<times> ('c, 'r, 'f) MemStorage" where
  "MemStorage_run lc st [] = ([], st)"
| "MemStorage_run lc st (c # cs) =
     (case MemStorage_call lc st c of
        (x, st') \<Rightarrow> (case MemStorage_run lc st' cs of (xs, st'') \<Rightarrow> (x # xs, st'')))"

text \<open>The identifiers of the records of each class that a sequence of calls created, in order.\<close>

fun created_user_ids :: "('c, 'r, 'f) storage_result list \<Rightarrow> int list" where
  "created_user_ids [] = []"
| "created_user_ids (CreatedUser u # xs) = u_id u # created_user_ids xs"
| "created_user_ids (x # xs) = created_user_ids xs"

fun created_analysis_ids :: "('c, 'r, 'f) storage_result list \<Rightarrow> int list" where
  "created_analysis_ids [] = []"
| "created_analysis_ids (CreatedAnalysis a # xs) = pa_id a # created_analysis_ids xs"
| "created_analysis_ids (x # xs) = created_analysis_ids xs"

fun created_report_ids :: "('c, 'r, 'f) storage_result list \<Rightarrow> int list" where
  "created_report_ids [] = []"
| "created_report_ids (CreatedReport r # xs) = dr_id r # created_report_ids xs"
| "created_report_ids (x # xs) = created_report_ids xs"

fun created_feedback_ids :: "('c, 'r, 'f) storage_result list \<Rightarrow> int list" where
  "created_feedback_ids [] = []"
| "created_feedback_ids (CreatedFeedback f # xs) = fb_id f # created_feedback_ids xs"
| "created_feedback_ids (x # xs) = created_feedback_ids xs"

section \<open>Notions the properties are stated with\<close>

text \<open>The time stamp of a record: the time of its \<open>createdAt\<close>, 0 when that is \<^verbatim>\<open>null\<close>.\<close>

definition timestamp :: "Date option \<Rightarrow> int" where
  "timestamp d = (case d of None \<Rightarrow> 0 | Some t \<Rightarrow> t)"

text \<open>A list is newest first: no record comes before one with a larger time stamp.\<close>

definition newest_first :: "('a \<Rightarrow> Date option) \<Rightarrow> 'a list \<Rightarrow> bool" where
  "newest_first createdAt xs = sorted_wrt (\<lambda>a b. timestamp (createdAt b) \<le> timestamp (createdAt a)) xs"

text \<open>A number lies in the closed interval from 0 to 1.\<close>

fun in_unit_interval :: "jsnum \<Rightarrow> bool" where
  "in_unit_interval (Num q) = (0 \<le> q \<and> q \<le> 1)"
| "in_unit_interval n = False"

text \<open>
  A map of a store is numbered up to a counter \<open>c\<close>: its keys, in order of insertion,
  are 1 to \<open>c - 1\<close>, and every record is stored under its own identifier.
\<close>

definition numbered :: "('v \<Rightarrow> int) \<Rightarrow> (int, 'v) JSMap \<Rightarrow> int \<Rightarrow> bool" where
  "numbered ident m c = (1 \<le> c \<and> map fst m = [1..c - 1] \<and> map ident (Map_values m) = [1..c - 1])"

definition MemStorage_numbered :: "('c, 'r, 'f) MemStorage \<Rightarrow> bool" where
  "MemStorage_numbered st =
     (numbered u_id (users st) (currentUserId st)
      \<and> numbered pa_id (plantAnalyses st) (currentAnalysisId st)
      \<and> numbered dr_id (diseaseReports st) (currentReportId st)
      \<and> numbered fb_id (userFeedback st) (currentFeedbackId st))"

section \<open>Sample inputs\<close>

text \<open>
  Concrete inputs on which the theorems below are run: schemas that take a pair of
  strings as the body of a request (a user name and a password, a location and a
  description, a comment for the analysis 7), a clock, a hosted model that answers with
  an empty message, and the in-memory storage with a \<open>toLowerCase\<close> that changes
  nothing.
\<close>

definition sample_schemas :: "(string \<times> string, unit, unit, unit) schemas" where
  "sample_schemas =
     \<lparr> signinSchema = (\<lambda>b. Some b),
       signupSchema =
         (\<lambda>b. Some \<lparr> iu_username = fst b, iu_password = snd b, iu_email = Undefined,
                      iu_firstName = Undefined, iu_lastName = Undefined,
                      confirmPassword = snd b \<rparr>),
       insertDiseaseReportSchema =
         (\<lambda>b uid. Some \<lparr> idr_location = fst b, idr_description = Value (snd b),
                          idr_latitude = Undefined, idr_longitude = Undefined,
                          idr_other = () \<rparr>),
       insertUserFeedbackSchema =
         (\<lambda>b uid. Some \<lparr> ifb_analysisId = 7, ifb_comment = Value (snd b), ifb_other = () \<rparr>) \<rparr>"

definition sample_env :: env where
  "sample_env = \<lparr> clock = 1700000000000, openai_create = (\<lambda>img. Message Falsy) \<rparr>"

definition sample_request :: "string \<times> string \<Rightarrow> (string \<times> string) request" where
  "sample_request b = \<lparr> req_body = b, req_file = None, req_id = Some 1 \<rparr>"

definition sample_storage :: "((unit, unit, unit) MemStorage, unit, unit, unit) IStorage" where
  "sample_storage = MemStorage_impl (\<lambda>s. s)"

definition sample_analysis :: InsertPlantAnalysis where
  "sample_analysis =
     \<lparr> ipa_userId = 1, ipa_imagePath = ''/uploads/leaf.jpg'', ipa_diagnosis = JStr ''Aloe Rust'',
       ipa_confidence = Num (9 / 10), ipa_severity = JStr ''low'', ipa_isHealthy = Value False,
       ipa_description = JUndefined, ipa_treatment = JUndefined \<rparr>"

text \<open>The store after the sample analysis of user 1 was created, and the record stored.\<close>

definition sample_store :: "(unit, unit, unit) MemStorage" where
  "sample_store = snd (createPlantAnalysis MemStorage_new 5 sample_analysis)"

definition sample_stored :: PlantAnalysis where
  "sample_stored =
     fst (createPlantAnalysis (MemStorage_new :: (unit, unit, unit) MemStorage) 5 sample_analysis)"

text \<open>The store after the user alice was created.\<close>

definition sample_user :: InsertUser where
  "sample_user =
     \<lparr> iu_username = ''alice'', iu_password = ''secret'', iu_email = Undefined,
       iu_firstName = Undefined, iu_lastName = Undefined \<rparr>"

definition sample_user_store :: "(unit, unit, unit) MemStorage" where
  "sample_user_store = snd (createUser MemStorage_new 5 sample_user)"

section \<open>Properties of the in-memory storage\<close>

subsection \<open>The map and the sort\<close>

lemma map_of_replace:
  "k \<in> fst ` set m \<Longrightarrow>
   map_of (map (\<lambda>(k', v'). if k' = k then (k', v) else (k', v')) m) k = Some v"
proof (induction m)
  case Nil
  then show ?case by simp
next
  case (Cons p m)
  obtain a b where p: "p = (a, b)" by (cases p)
  show ?case
  proof (cases "a = k")
    case True
    with p show ?thesis by simp
  next
    case False
    with p Cons show ?thesis by simp
  qed
qed

lemma Map_get_Map_set: "Map_get (Map_set m k v) k = Some v"
proof (cases "k \<in> fst ` set m")
  case True
  then show ?thesis by (simp add: Map_get_def Map_set_def map_of_replace)
next
  case False
  then have "map_of m k = None" by (simp add: map_of_eq_None_iff)
  with False show ?thesis by (simp add: Map_get_def Map_set_def map_add_def)
qed

lemma Map_set_fresh: "k \<notin> fst ` set m \<Longrightarrow> Map_set m k v = m @ [(k, v)]"
  by (simp add: Map_set_def)

lemma getTimeOr0_timestamp: "getTimeOr0 d = timestamp d"
  by (simp add: getTimeOr0_def timestamp_def split: option.splits)

lemma set_sort_insert: "set (sort_insert cmp x xs) = insert x (set xs)"
  by (induction xs) auto

lemma set_Array_sort: "set (Array_sort cmp xs) = set xs"
  unfolding Array_sort_def by (induction xs) (simp_all add: set_sort_insert)

lemma sort_insert_descending:
  assumes "sorted_wrt (\<lambda>a b. k b \<le> k a) xs"
  shows "sorted_wrt (\<lambda>a b. k b \<le> k a) (sort_insert (\<lambda>a b. k b - k a) x xs)"
  using assms
proof (induction xs)
  case Nil
  then show ?case by simp
next
  case (Cons y ys)
  show ?case
  proof (cases "k y - k x \<le> (0::int)")
    case True
    then have "\<forall>z\<in>set ys. k z \<le> k x" using Cons.prems by fastforce
    with True Cons.prems show ?thesis by simp
  next
    case False
    with Cons show ?thesis by (auto simp: set_sort_insert)
  qed
qed

lemma Array_sort_descending:
  "sorted_wrt (\<lambda>a b. (k b :: int) \<le> k a) (Array_sort (\<lambda>a b. k b - k a) xs)"
  unfolding Array_sort_def
  by (induction xs) (simp_all add: sort_insert_descending)

lemma Array_sort_newest_first:
  "newest_first f (Array_sort (\<lambda>a b. getTimeOr0 (f b) - getTimeOr0 (f a)) xs)"
  unfolding newest_first_def getTimeOr0_timestamp
  by (rule Array_sort_descending [of "\<lambda>x. timestamp (f x)"])

text \<open>The list queries return the records they select, whatever the order.\<close>

lemma list_queries_content:
  "set (getPlantAnalysesByUser st uid)
     = {a \<in> set (Map_values (plantAnalyses st)). pa_userId a = uid}"
  "set (getDiseaseReports st) = set (Map_values (diseaseReports st))"
  by (simp_all add: getPlantAnalysesByUser_def getDiseaseReports_def set_Array_sort)

text \<open>
  Claim C10. The lists that \<open>getPlantAnalysesByUser\<close>, \<open>getDiseaseReports\<close> and
  \<open>getDiseaseReportsByLocation\<close> return are newest first, in every state of the store:
  the time stamps of \<open>createdAt\<close> never increase along the list.
\<close>

theorem list_queries_newest_first:
  "newest_first pa_createdAt (getPlantAnalysesByUser st uid)
   \<and> newest_first dr_createdAt (getDiseaseReports st)
   \<and> newest_first dr_createdAt (getDiseaseReportsByLocation toLowerCase st location)"
  unfolding getPlantAnalysesByUser_def getDiseaseReports_def getDiseaseReportsByLocation_def
  by (simp add: Array_sort_newest_first)

subsection \<open>Defaults at creation\<close>

lemma createUser_defaults:
  "(case createUser st t u of (x, st') \<Rightarrow>
      u_username x = iu_username u \<and> u_password x = iu_password u
      \<and> u_email x = (case iu_email u of Value v \<Rightarrow> Some v | _ \<Rightarrow> None)
      \<and> u_firstName x = (case iu_firstName u of Value v \<Rightarrow> Some v | _ \<Rightarrow> None)
      \<and> u_lastName x = (case iu_lastName u of Value v \<Rightarrow> Some v | _ \<Rightarrow> None)
      \<and> Map_get (users st') (u_id x) = Some x)"
  by (simp add: createUser_def Let_def Map_get_Map_set split: optional.splits)

lemma jsOrNull_cases: "jsOrNull v = (if v = JUndefined \<or> v = JNull then JNull else v)"
  by (cases v) simp_all

lemma createPlantAnalysis_defaults:
  "(case createPlantAnalysis st t a of (x, st') \<Rightarrow>
      pa_userId x = ipa_userId a \<and> pa_imagePath x = ipa_imagePath a
      \<and> pa_diagnosis x = ipa_diagnosis a \<and> pa_confidence x = ipa_confidence a
      \<and> pa_description x
          = (if ipa_description a = JUndefined \<or> ipa_description a = JNull then JNull
             else ipa_description a)
      \<and> pa_severity x
          = (if ipa_severity a = JUndefined \<or> ipa_severity a = JNull then JNull
             else ipa_severity a)
      \<and> pa_treatment x
          = (if ipa_treatment a = JUndefined \<or> ipa_treatment a = JNull then JNull
             else ipa_treatment a)
      \<and> pa_isHealthy x = (case ipa_isHealthy a of Value b \<Rightarrow> b | _ \<Rightarrow> False)
      \<and> Map_get (plantAnalyses st') (pa_id x) = Some x)"
  by (simp add: createPlantAnalysis_def Let_def Map_get_Map_set jsOrNull_cases
        split: optional.splits)

lemma createDiseaseReport_defaults:
  "(case createDiseaseReport st t r of (x, st') \<Rightarrow>
      dr_location x = idr_location r \<and> dr_other x = idr_other r
      \<and> dr_description x = (case idr_description r of Value v \<Rightarrow> Some v | _ \<Rightarrow> None)
      \<and> dr_latitude x = (case idr_latitude r of Value v \<Rightarrow> Some v | _ \<Rightarrow> None)
      \<and> dr_longitude x = (case idr_longitude r of Value v \<Rightarrow> Some v | _ \<Rightarrow> None)
      \<and> Map_get (diseaseReports st') (dr_id x) = Some x)"
  by (simp add: createDiseaseReport_def Let_def Map_get_Map_set split: optional.splits)

lemma createUserFeedback_defaults:
  "(case createUserFeedback st t f of (x, st') \<Rightarrow>
      fb_analysisId x = ifb_analysisId f \<and> fb_other x = ifb_other f
      \<and> fb_comment x = (case ifb_comment f of Value v \<Rightarrow> Some v | _ \<Rightarrow> None)
      \<and> Map_get (userFeedback st') (fb_id x) = Some x)"
  by (simp add: createUserFeedback_def Let_def Map_get_Map_set split: optional.splits)

text \<open>
  Claim C4. Each create operation stores (under the new identifier) and returns a record
  in which an optional field that is absent (\<^verbatim>\<open>undefined\<close>) or \<^verbatim>\<open>null\<close> is \<^verbatim>\<open>null\<close>
  (\<open>False\<close> for \<open>isHealthy\<close>), and every field that was supplied has the value supplied:
  \<open>email\<close>, \<open>firstName\<close> and \<open>lastName\<close> of a user; \<open>description\<close>, \<open>severity\<close>,
  \<open>treatment\<close> and \<open>isHealthy\<close> of a plant analysis; \<open>description\<close>, \<open>latitude\<close> and
  \<open>longitude\<close> of a disease report; \<open>comment\<close> of a feedback record.
\<close>

theorem create_defaults_optional_fields:
  "(case createUser st t u of (x, st') \<Rightarrow>
      u_username x = iu_username u \<and> u_password x = iu_password u
      \<and> u_email x = (case iu_email u of Value v \<Rightarrow> Some v | _ \<Rightarrow> None)
      \<and> u_firstName x = (case iu_firstName u of Value v \<Rightarrow> Some v | _ \<Rightarrow> None)
      \<and> u_lastName x = (case iu_lastName u of Value v \<Rightarrow> Some v | _ \<Rightarrow> None)
      \<and> Map_get (users st') (u_id x) = Some x)
   \<and> (case createPlantAnalysis st t a of (x, st') \<Rightarrow>
      pa_userId x = ipa_userId a \<and> pa_imagePath x = ipa_imagePath a
      \<and> pa_diagnosis x = ipa_diagnosis a \<and> pa_confidence x = ipa_confidence a
      \<and> pa_description x
          = (if ipa_description a = JUndefined \<or> ipa_description a = JNull then JNull
             else ipa_description a)
      \<and> pa_severity x
          = (if ipa_severity a = JUndefined \<or> ipa_severity a = JNull then JNull
             else ipa_severity a)
      \<and> pa_treatment x
          = (if ipa_treatment a = JUndefined \<or> ipa_treatment a = JNull then JNull
             else ipa_treatment a)
      \<and> pa_isHealthy x = (case ipa_isHealthy a of Value b \<Rightarrow> b | _ \<Rightarrow> False)
      \<and> Map_get (plantAnalyses st') (pa_id x) = Some x)
   \<and> (case createDiseaseReport st t r of (x, st') \<Rightarrow>
      dr_location x = idr_location r \<and> dr_other x = idr_other r
      \<and> dr_description x = (case idr_description r of Value v \<Rightarrow> Some v | _ \<Rightarrow> None)
      \<and> dr_latitude x = (case idr_latitude r of Value v \<Rightarrow> Some v | _ \<Rightarrow> None)
      \<and> dr_longitude x = (case idr_longitude r of Value v \<Rightarrow> Some v | _ \<Rightarrow> None)
      \<and> Map_get (diseaseReports st') (dr_id x) = Some x)
   \<and> (case createUserFeedback st t f of (x, st') \<Rightarrow>
      fb_analysisId x = ifb_analysisId f \<and> fb_other x = ifb_other f
      \<and> fb_comment x = (case ifb_comment f of Value v \<Rightarrow> Some v | _ \<Rightarrow> None)
      \<and> Map_get (userFeedback st') (fb_id x) = Some x)"
  using createUser_defaults [where st = st and t = t and u = u]
    createPlantAnalysis_defaults [where st = st and t = t and a = a]
    createDiseaseReport_defaults [where st = st and t = t and r = r]
    createUserFeedback_defaults [where st = st and t = t and f = f]
  by blast

subsection \<open>Identifiers\<close>

lemma numbered_Map_set:
  assumes "numbered ident m c" and "ident v = c"
  shows "numbered ident (Map_set m c v) (c + 1)"
    and "Map_set m c v = m @ [(c, v)]"
proof -
  from assms have c: "1 \<le> c" and k: "map fst m = [1..c - 1]"
    and i: "map ident (Map_values m) = [1..c - 1]"
    by (simp_all add: numbered_def)
  have "set (map fst m) = {1..c - 1}" using k by simp
  then have "c \<notin> fst ` set m" by auto
  then show app: "Map_set m c v = m @ [(c, v)]" by (simp add: Map_set_def)
  have u: "[1..c] = [1..c - 1] @ [c]" using c by (simp add: upto_rec2)
  show "numbered ident (Map_set m c v) (c + 1)"
    using c k i assms(2) by (simp add: numbered_def app Map_values_def u)
qed

lemma numbered_distinct: "numbered ident m c \<Longrightarrow> distinct (map ident (Map_values m))"
  by (simp add: numbered_def)

lemma MemStorage_new_numbered: "MemStorage_numbered MemStorage_new"
  by (simp add: MemStorage_numbered_def MemStorage_new_def numbered_def Map_values_def)

lemma createUser_numbered:
  assumes "MemStorage_numbered st" and "createUser st t u = (x, st')"
  shows "MemStorage_numbered st'" and "u_id x = currentUserId st"
    and "currentUserId st' = currentUserId st + 1"
    and "currentAnalysisId st' = currentAnalysisId st"
    and "currentReportId st' = currentReportId st"
    and "currentFeedbackId st' = currentFeedbackId st"
proof -
  from assms(2) have x: "u_id x = currentUserId st"
    and st': "st' = st\<lparr> currentUserId := currentUserId st + 1,
                         users := Map_set (users st) (currentUserId st) x \<rparr>"
    by (auto simp: createUser_def Let_def)
  from assms(1) have "numbered u_id (users st) (currentUserId st)"
    by (simp add: MemStorage_numbered_def)
  from numbered_Map_set(1) [OF this x] assms(1)
  show "MemStorage_numbered st'" by (simp add: MemStorage_numbered_def st')
  show "u_id x = currentUserId st" by (rule x)
  show "currentUserId st' = currentUserId st + 1" "currentAnalysisId st' = currentAnalysisId st"
    "currentReportId st' = currentReportId st" "currentFeedbackId st' = currentFeedbackId st"
    by (simp_all add: st')
qed

lemma createPlantAnalysis_numbered:
  assumes "MemStorage_numbered st" and "createPlantAnalysis st t u = (x, st')"
  shows "MemStorage_numbered st'" and "pa_id x = currentAnalysisId st"
    and "currentUserId st' = currentUserId st"
    and "currentAnalysisId st' = currentAnalysisId st + 1"
    and "currentReportId st' = currentReportId st"
    and "currentFeedbackId st' = currentFeedbackId st"
proof -
  from assms(2) have x: "pa_id x = currentAnalysisId st"
    and st': "st' = st\<lparr> currentAnalysisId := currentAnalysisId st + 1,
                         plantAnalyses := Map_set (plantAnalyses st) (currentAnalysisId st) x \<rparr>"
    by (auto simp: createPlantAnalysis_def Let_def)
  from assms(1) have "numbered pa_id (plantAnalyses st) (currentAnalysisId st)"
    by (simp add: MemStorage_numbered_def)
  from numbered_Map_set(1) [OF this x] assms(1)
  show "MemStorage_numbered st'" by (simp add: MemStorage_numbered_def st')
  show "pa_id x = currentAnalysisId st" by (rule x)
  show "currentUserId st' = currentUserId st" "currentAnalysisId st' = currentAnalysisId st + 1"
    "currentReportId st' = currentReportId st" "currentFeedbackId st' = currentFeedbackId st"
    by (simp_all add: st')
qed

lemma createDiseaseReport_numbered:
  assumes "MemStorage_numbered st" and "createDiseaseReport st t u = (x, st')"
  shows "MemStorage_numbered st'" and "dr_id x = currentReportId st"
    and "currentUserId st' = currentUserId st"
    and "currentAnalysisId st' = currentAnalysisId st"
    and "currentReportId st' = currentReportId st + 1"
    and "currentFeedbackId st' = currentFeedbackId st"
proof -
  from assms(2) have x: "dr_id x = currentReportId st"
    and st': "st' = st\<lparr> currentReportId := currentReportId st + 1,
                         diseaseReports := Map_set (diseaseReports st) (currentReportId st) x \<rparr>"
    by (auto simp: createDiseaseReport_def Let_def)
  from assms(1) have "numbered dr_id (diseaseReports st) (currentReportId st)"
    by (simp add: MemStorage_numbered_def)
  from numbered_Map_set(1) [OF this x] assms(1)
  show "MemStorage_numbered st'" by (simp add: MemStorage_numbered_def st')
  show "dr_id x = currentReportId st" by (rule x)
  show "currentUserId st' = currentUserId st" "currentAnalysisId st' = currentAnalysisId st"
    "currentReportId st' = currentReportId st + 1" "currentFeedbackId st' = currentFeedbackId st"
    by (simp_all add: st')
qed

lemma createUserFeedback_numbered:
  assumes "MemStorage_numbered st" and "createUserFeedback st t u = (x, st')"
  shows "MemStorage_numbered st'" and "fb_id x = currentFeedbackId st"
    and "currentUserId st' = currentUserId st"
    and "currentAnalysisId st' = currentAnalysisId st"
    and "currentReportId st' = currentReportId st"
    and "currentFeedbackId st' = currentFeedbackId st + 1"
proof -
  from assms(2) have x: "fb_id x = currentFeedbackId st"
    and st': "st' = st\<lparr> currentFeedbackId := currentFeedbackId st + 1,
                         userFeedback := Map_set (userFeedback st) (currentFeedbackId st) x \<rparr>"
    by (auto simp: createUserFeedback_def Let_def)
  from assms(1) have "numbered fb_id (userFeedback st) (currentFeedbackId st)"
    by (simp add: MemStorage_numbered_def)
  from numbered_Map_set(1) [OF this x] assms(1)
  show "MemStorage_numbered st'" by (simp add: MemStorage_numbered_def st')
  show "fb_id x = currentFeedbackId st" by (rule x)
  show "currentUserId st' = currentUserId st" "currentAnalysisId st' = currentAnalysisId st"
    "currentReportId st' = currentReportId st" "currentFeedbackId st' = currentFeedbackId st + 1"
    by (simp_all add: st')
qed

lemma MemStorage_call_numbered:
  assumes "MemStorage_numbered st" and "MemStorage_call lc st c = (x, st')"
  shows "MemStorage_numbered st'
    \<and> created_user_ids (x # xs) = [currentUserId st..currentUserId st' - 1] @ created_user_ids xs
    \<and> created_analysis_ids (x # xs)
        = [currentAnalysisId st..currentAnalysisId st' - 1] @ created_analysis_ids xs
    \<and> created_report_ids (x # xs)
        = [currentReportId st..currentReportId st' - 1] @ created_report_ids xs
    \<and> created_feedback_ids (x # xs)
        = [currentFeedbackId st..currentFeedbackId st' - 1] @ created_feedback_ids xs
    \<and> currentUserId st \<le> currentUserId st' \<and> currentAnalysisId st \<le> currentAnalysisId st'
    \<and> currentReportId st \<le> currentReportId st' \<and> currentFeedbackId st \<le> currentFeedbackId st'"
proof (cases c)
  case (CallCreateUser t u)
  with assms(2) obtain y where y: "createUser st t u = (y, st')" and x: "x = CreatedUser y"
    by (auto split: prod.splits)
  from createUser_numbered [OF assms(1) y] x show ?thesis by simp
next
  case (CallCreatePlantAnalysis t u)
  with assms(2) obtain y where y: "createPlantAnalysis st t u = (y, st')" and x: "x = CreatedAnalysis y"
    by (auto split: prod.splits)
  from createPlantAnalysis_numbered [OF assms(1) y] x show ?thesis by simp
next
  case (CallCreateDiseaseReport t u)
  with assms(2) obtain y where y: "createDiseaseReport st t u = (y, st')" and x: "x = CreatedReport y"
    by (auto split: prod.splits)
  from createDiseaseReport_numbered [OF assms(1) y] x show ?thesis by simp
next
  case (CallCreateUserFeedback t u)
  with assms(2) obtain y where y: "createUserFeedback st t u = (y, st')" and x: "x = CreatedFeedback y"
    by (auto split: prod.splits)
  from createUserFeedback_numbered [OF assms(1) y] x show ?thesis by simp
qed (use assms in auto)

lemma upto_append: "i \<le> j + 1 \<Longrightarrow> j \<le> k \<Longrightarrow> [i..j] @ [j + 1..k] = [i..k]" for i j k :: int
proof (cases "i \<le> j")
  case True
  assume "j \<le> k"
  with True show ?thesis using upto_split2 [of i j k] by simp
next
  case False
  assume "i \<le> j + 1"
  with False have "i = j + 1" by simp
  then show ?thesis by simp
qed

lemma MemStorage_run_numbered:
  assumes "MemStorage_numbered st" and "MemStorage_run lc st cs = (xs, st')"
  shows "MemStorage_numbered st'
    \<and> created_user_ids xs = [currentUserId st..currentUserId st' - 1]
    \<and> created_analysis_ids xs = [currentAnalysisId st..currentAnalysisId st' - 1]
    \<and> created_report_ids xs = [currentReportId st..currentReportId st' - 1]
    \<and> created_feedback_ids xs = [currentFeedbackId st..currentFeedbackId st' - 1]
    \<and> currentUserId st \<le> currentUserId st' \<and> currentAnalysisId st \<le> currentAnalysisId st'
    \<and> currentReportId st \<le> currentReportId st' \<and> currentFeedbackId st \<le> currentFeedbackId st'"
  using assms
proof (induction cs arbitrary: st xs st')
  case Nil
  then show ?case by simp
next
  case (Cons c cs)
  obtain y st1 where c: "MemStorage_call lc st c = (y, st1)" by (cases "MemStorage_call lc st c")
  obtain ys st2 where r: "MemStorage_run lc st1 cs = (ys, st2)" by (cases "MemStorage_run lc st1 cs")
  from Cons.prems(2) c r have xs: "xs = y # ys" and st': "st' = st2" by simp_all
  note one = MemStorage_call_numbered [OF Cons.prems(1) c, of ys]
  from one have n1: "MemStorage_numbered st1" by simp
  note rest = Cons.IH [OF n1 r]
  have j: "[a..b - 1] @ [b..d - 1] = [a..d - 1]" if "a \<le> b" "b \<le> d" for a b d :: int
    using upto_append [of a "b - 1" "d - 1"] that by simp
  from one rest show ?case unfolding xs st' by (simp add: j)
qed

text \<open>
  Claim C3. From a fresh \<open>MemStorage\<close>, after any sequence of calls of its methods,
  the records created in each class (users, plant analyses, disease reports, feedback)
  carry the identifiers 1, 2, 3, ... in the order of their creation: the n-th gets n.
  The records stored in each map are the ones created, in that order, so their
  identifiers are pairwise distinct.
\<close>

theorem MemStorage_ids_count_from_one:
  "(case MemStorage_run lc MemStorage_new cs of
      (xs, st) \<Rightarrow>
        created_user_ids xs = [1..int (length (created_user_ids xs))]
        \<and> created_analysis_ids xs = [1..int (length (created_analysis_ids xs))]
        \<and> created_report_ids xs = [1..int (length (created_report_ids xs))]
        \<and> created_feedback_ids xs = [1..int (length (created_feedback_ids xs))]
        \<and> map u_id (Map_values (users st)) = created_user_ids xs
        \<and> map pa_id (Map_values (plantAnalyses st)) = created_analysis_ids xs
        \<and> map dr_id (Map_values (diseaseReports st)) = created_report_ids xs
        \<and> map fb_id (Map_values (userFeedback st)) = created_feedback_ids xs
        \<and> distinct (map u_id (Map_values (users st)))
        \<and> distinct (map pa_id (Map_values (plantAnalyses st)))
        \<and> distinct (map dr_id (Map_values (diseaseReports st)))
        \<and> distinct (map fb_id (Map_values (userFeedback st))))"
proof -
  obtain xs st where r: "MemStorage_run lc MemStorage_new cs = (xs, st)"
    by (cases "MemStorage_run lc MemStorage_new cs")
  note n = MemStorage_run_numbered [OF MemStorage_new_numbered r]
  from n have st: "MemStorage_numbered st" by simp
  have new: "currentUserId (MemStorage_new :: ('a, 'b, 'c) MemStorage) = 1"
    "currentAnalysisId (MemStorage_new :: ('a, 'b, 'c) MemStorage) = 1"
    "currentReportId (MemStorage_new :: ('a, 'b, 'c) MemStorage) = 1"
    "currentFeedbackId (MemStorage_new :: ('a, 'b, 'c) MemStorage) = 1"
    by (simp_all add: MemStorage_new_def)
  from n st show ?thesis
    unfolding r new by (simp add: MemStorage_numbered_def numbered_def)
qed

section \<open>Properties of the AI wrapper\<close>

lemma ToNumber_None_iff: "ToNumber v = None \<longleftrightarrow> ToString_throws v"
  by (cases v) (simp_all add: ToNumber_def)

lemma ToString_throws_js_or: "ToString_throws (js_or v (JNum n)) = ToString_throws v"
  by (cases v) (simp_all add: js_or_def)

lemma confidence_ToNumber_None_iff:
  "ToNumber (js_or v (JNum (Num 0))) = None \<longleftrightarrow> ToString_throws v"
  by (simp add: ToNumber_None_iff ToString_throws_js_or)

text \<open>
  When the wrapper returns a result at all: the call resolved with a message whose
  content is falsy or parses to a value other than \<^verbatim>\<open>null\<close>, and the conversion of
  the confidence to a number does not throw. In every other case it throws.
\<close>

lemma analyzePlantImage_returns_iff:
  "(\<exists>r. analyzePlantImage create img = Inr r) \<longleftrightarrow>
   (\<exists>c result. create img = Message c \<and> parse_content c = Some result
      \<and> result \<noteq> JNull \<and> result \<noteq> JUndefined
      \<and> \<not> ToString_throws (getProp result ''confidence''))"
proof (cases "create img")
  case (Message c)
  show ?thesis
  proof (cases "parse_content c")
    case None
    with Message show ?thesis by (simp add: analyzePlantImage_def)
  next
    case (Some result)
    show ?thesis
    proof (cases "ToNumber (js_or (getProp result ''confidence'') (JNum (Num 0)))")
      case None
      then have "ToString_throws (getProp result ''confidence'')"
        by (simp add: confidence_ToNumber_None_iff)
      with None Message Some show ?thesis by (simp add: analyzePlantImage_def)
    next
      case (Some n)
      then have "\<not> ToString_throws (getProp result ''confidence'')"
        using confidence_ToNumber_None_iff [of "getProp result ''confidence''"] by simp
      with Some Message \<open>parse_content c = Some result\<close> show ?thesis
        by (simp add: analyzePlantImage_def)
    qed
  qed
qed (simp_all add: analyzePlantImage_def)

text \<open>
  Claim C5, as stated, fails: a message whose content is no JSON text (a SyntaxError of
  \<^verbatim>\<open>JSON.parse\<close>, as for an answer cut off at the token limit) gives no result; the
  wrapper throws.
\<close>

theorem analyzePlantImage_throws_on_unparseable:
  "analyzePlantImage (\<lambda>img. Message (Text None)) ''aGVsbG8='' = Inl SyntaxError"
  by (simp add: analyzePlantImage_def parse_content_def)

text \<open>
  Claim C5, amended. For every answer of the model whose content is empty or parses to a
  value \<open>result\<close> other than \<^verbatim>\<open>null\<close>, and whose confidence converts to a number without a
  TypeError, \<open>analyzePlantImage\<close> returns a result: its \<open>disease\<close> is the parsed field,
  or \<open>Unknown\<close> when the field is absent or falsy; likewise its \<open>description\<close>
  (\<open>No description available\<close>) and its \<open>treatment\<close>
  (\<open>No treatment recommendations available\<close>); and its \<open>isHealthy\<close> is true exactly
  when the parsed field is the boolean \<^verbatim>\<open>true\<close>.
\<close>

theorem analyzePlantImage_fallbacks:
  assumes "create img = Message c" and "parse_content c = Some result"
    and "result \<noteq> JNull" and "result \<noteq> JUndefined"
    and "\<not> ToString_throws (getProp result ''confidence'')"
  shows "\<exists>r. analyzePlantImage create img = Inr r
    \<and> disease r = (if truthy (getProp result ''disease'') then getProp result ''disease''
                   else JStr ''Unknown'')
    \<and> description r = (if truthy (getProp result ''description'')
                       then getProp result ''description''
                       else JStr ''No description available'')
    \<and> treatment r = (if truthy (getProp result ''treatment'')
                     then getProp result ''treatment''
                     else JStr ''No treatment recommendations available'')
    \<and> (isHealthy r \<longleftrightarrow> getProp result ''isHealthy'' = JBool True)"
proof -
  from assms(5) obtain n where
    "ToNumber (js_or (getProp result ''confidence'') (JNum (Num 0))) = Some n"
    using confidence_ToNumber_None_iff [of "getProp result ''confidence''"] by auto
  with assms(1-4) show ?thesis
    by (simp add: analyzePlantImage_def js_or_def)
qed

text \<open>
  The amended claim on an empty answer, and on an object that has only a disease and a
  string for \<open>isHealthy\<close>.
\<close>

theorem analyzePlantImage_fallbacks_witness:
  "(\<exists>r. analyzePlantImage (\<lambda>img. Message Falsy) ''aGVsbG8='' = Inr r
      \<and> disease r = JStr ''Unknown''
      \<and> description r = JStr ''No description available''
      \<and> treatment r = JStr ''No treatment recommendations available''
      \<and> \<not> isHealthy r)
   \<and> (\<exists>r. analyzePlantImage
            (\<lambda>img. Message (Text (Some (JObj [(''disease'', JStr ''Aloe Rust''),
                                               (''isHealthy'', JStr ''true'')]))))
            ''aGVsbG8='' = Inr r
      \<and> disease r = JStr ''Aloe Rust''
      \<and> description r = JStr ''No description available''
      \<and> treatment r = JStr ''No treatment recommendations available''
      \<and> \<not> isHealthy r)"
  using analyzePlantImage_fallbacks [of "\<lambda>img. Message Falsy" "''aGVsbG8=''" Falsy "JObj []"]
    analyzePlantImage_fallbacks
      [of "\<lambda>img. Message (Text (Some (JObj [(''disease'', JStr ''Aloe Rust''),
                                               (''isHealthy'', JStr ''true'')])))"
          "''aGVsbG8=''"
          "Text (Some (JObj [(''disease'', JStr ''Aloe Rust''), (''isHealthy'', JStr ''true'')]))"
          "JObj [(''disease'', JStr ''Aloe Rust''), (''isHealthy'', JStr ''true'')]"]
  by (simp add: parse_content_def)

subsection \<open>The confidence\<close>

lemma clamp_in_unit_interval:
  "n \<noteq> NaN \<Longrightarrow> in_unit_interval (Math_max (Num 0) (Math_min (Num 1) n))"
  by (cases n) (auto simp: Math_max_def Math_min_def)

lemma confidence_of_number:
  assumes "v \<in> {JUndefined, JNull} \<union> range JBool \<union> range JNum"
  shows "\<exists>n. ToNumber (js_or v (JNum (Num 0))) = Some n \<and> n \<noteq> NaN"
proof (cases v)
  case (JBool b)
  then show ?thesis by (cases b) (simp_all add: js_or_def ToNumber_def)
next
  case (JNum x)
  then show ?thesis by (cases "x = NaN \<or> x = Num 0") (auto simp: js_or_def ToNumber_def)
qed (use assms in \<open>auto simp: js_or_def ToNumber_def\<close>)

text \<open>
  The clamp does put the confidence between 0 and 1 when the parsed field is absent,
  \<^verbatim>\<open>null\<close>, a boolean or a number.
\<close>

lemma confidence_clamped_for_numbers:
  assumes "analyzePlantImage create img = Inr r" and "create img = Message c"
    and "parse_content c = Some result"
    and "getProp result ''confidence'' \<in> {JUndefined, JNull} \<union> range JBool \<union> range JNum"
  shows "in_unit_interval (confidence r)"
proof -
  from confidence_of_number [OF assms(4)] obtain n where
    n: "ToNumber (js_or (getProp result ''confidence'') (JNum (Num 0))) = Some n" "n \<noteq> NaN"
    by blast
  with assms(1-3) have "confidence r = Math_max (Num 0) (Math_min (Num 1) n)"
    by (auto simp: analyzePlantImage_def split: if_splits)
  with n(2) show ?thesis by (simp add: clamp_in_unit_interval)
qed

text \<open>So for the answer \<^verbatim>\<open>{"confidence": 5}\<close>: the confidence returned is 1.\<close>

lemma confidence_clamped_for_numbers_witness:
  "analyzePlantImage (\<lambda>img. Message (Text (Some (JObj [(''confidence'', JNum (Num 5))]))))
      ''aGVsbG8=''
     = Inr \<lparr> disease = JStr ''Unknown'', confidence = Num 1, severity = JUndefined,
            isHealthy = False, description = JStr ''No description available'',
            treatment = JStr ''No treatment recommendations available'' \<rparr>
   \<and> in_unit_interval (Num 1)"
proof -
  let ?create = "\<lambda>img :: string. Message (Text (Some (JObj [(''confidence'', JNum (Num 5))])))"
  let ?r = "\<lparr> disease = JStr ''Unknown'', confidence = Num 1, severity = JUndefined,
            isHealthy = False, description = JStr ''No description available'',
            treatment = JStr ''No treatment recommendations available'' \<rparr>"
  have r: "analyzePlantImage ?create ''aGVsbG8='' = Inr ?r"
    by (simp add: analyzePlantImage_def parse_content_def js_or_def ToNumber_def
        Math_max_def Math_min_def)
  from confidence_clamped_for_numbers
    [where create = ?create and img = "''aGVsbG8=''" and r = ?r
      and c = "Text (Some (JObj [(''confidence'', JNum (Num 5))]))"
      and result = "JObj [(''confidence'', JNum (Num 5))]"] r
  show ?thesis by (simp add: parse_content_def)
qed

lemma StringToNumber_high: "StringToNumber ''high'' = NaN"
  by code_simp

text \<open>
  Claim C9 says that the confidence returned lies between 0 and 1 for every answer of
  the model. The code does not keep it: for the answer \<^verbatim>\<open>{"confidence": "high"}\<close> the
  string is truthy, \<^verbatim>\<open>Math.min(1, "high")\<close> is NaN and so is \<^verbatim>\<open>Math.max(0, NaN)\<close>; the
  result carries the confidence NaN, which is no number between 0 and 1.
\<close>

theorem confidence_NaN_for_text:
  "analyzePlantImage (\<lambda>img. Message (Text (Some (JObj [(''confidence'', JStr ''high'')]))))
      ''aGVsbG8=''
     = Inr \<lparr> disease = JStr ''Unknown'', confidence = NaN, severity = JUndefined,
            isHealthy = False, description = JStr ''No description available'',
            treatment = JStr ''No treatment recommendations available'' \<rparr>
   \<and> \<not> in_unit_interval NaN"
  by (simp add: analyzePlantImage_def parse_content_def js_or_def ToNumber_def
      Math_max_def Math_min_def StringToNumber_high)

section \<open>Properties of the route layer\<close>

lemmas handler_defs =
  post_signin_def post_signup_def post_signout_def get_auth_user_def post_analyses_def
  get_analyses_def get_analysis_by_id_def post_disease_reports_def get_disease_reports_def
  post_feedback_def get_stats_def

lemmas sample_defs =
  sample_schemas_def sample_storage_def sample_env_def sample_request_def MemStorage_impl_def
  MemStorage_new_def

subsection \<open>The session check\<close>

text \<open>
  Claim C1, as stated, fails: two registered routes call the storage for a request
  whose session has no user id. \<^verbatim>\<open>GET /api/disease-reports\<close> has no session check and
  answers 200 with the reports; \<^verbatim>\<open>POST /api/auth/signup\<close>, which establishes the
  session, looks the user name up and creates the user.
\<close>

theorem unchecked_routes_call_storage:
  "reply (handle sample_schemas sample_storage sample_env GetDiseaseReports
      (sample_request ('''', '''')) \<lparr> userId = None \<rparr> MemStorage_new) = Sent 200 (ReportsBody [])
   \<and> calls (handle sample_schemas sample_storage sample_env GetDiseaseReports
      (sample_request ('''', '''')) \<lparr> userId = None \<rparr> MemStorage_new) = [OpGetDiseaseReports]
   \<and> reply (handle sample_schemas sample_storage sample_env PostAuthSignup
      (sample_request (''alice'', ''secret'')) \<lparr> userId = None \<rparr> MemStorage_new)
      = Sent 200 (UserEnvelope \<lparr> pu_id = 1, pu_username = ''alice'', pu_email = None,
          pu_firstName = None, pu_lastName = None, pu_createdAt = Some 1700000000000 \<rparr>)
   \<and> calls (handle sample_schemas sample_storage sample_env PostAuthSignup
      (sample_request (''alice'', ''secret'')) \<lparr> userId = None \<rparr> MemStorage_new)
      = [OpGetUserByUsername, OpCreateUser]"
  by (simp add: handler_defs sample_defs respond_def getDiseaseReports_def Array_sort_def
      Map_values_def getUserByUsername_def createUser_def Map_set_def without_password_def
      InsertUser.truncate_def Let_def)

text \<open>
  Claim C1, amended. Every registered route other than the three authentication routes
  (sign-in, sign-up, sign-out) and \<^verbatim>\<open>GET /api/disease-reports\<close> performs the session
  check before any storage call: for a request whose session has no user id (or the
  user id 0) it responds 401 ``Not authenticated'', calls no storage method and leaves
  the storage as it was, whatever the storage implementation. So on these routes a
  storage call happens only for an authenticated request. The sign-out route calls no
  storage method at all. (For \<^verbatim>\<open>POST /api/analyses\<close> the requests are those that the
  upload middleware hands to the handler.)
\<close>

theorem session_check_before_storage:
  "(session_checked r \<and> not_authenticated sess \<longrightarrow>
      reply (handle Z S E r req sess st) = Sent 401 (MessageBody ''Not authenticated'')
      \<and> calls (handle Z S E r req sess st) = []
      \<and> storage_after (handle Z S E r req sess st) = st)
   \<and> calls (handle Z S E PostAuthSignout req sess st) = []"
  by (cases r) (simp_all add: handler_defs not_authenticated_401_def respond_def)

theorem session_check_before_storage_witness:
  "session_checked GetAnalyses \<and> not_authenticated \<lparr> userId = None \<rparr>
   \<and> reply (handle sample_schemas sample_storage sample_env GetAnalyses
        (sample_request ('''', '''')) \<lparr> userId = None \<rparr> MemStorage_new)
      = Sent 401 (MessageBody ''Not authenticated'')
   \<and> calls (handle sample_schemas sample_storage sample_env GetAnalyses
        (sample_request ('''', '''')) \<lparr> userId = None \<rparr> MemStorage_new) = []"
  using session_check_before_storage
    [where r = GetAnalyses and sess = "\<lparr> userId = None \<rparr>" and Z = sample_schemas
      and S = sample_storage and E = sample_env and req = "sample_request ('''', '''')"
      and st = MemStorage_new]
  by (simp add: not_authenticated_def)

subsection \<open>The single-analysis route\<close>

text \<open>
  Claim C8, as stated, fails: a request without an authenticated session gets 401, not
  404, also when the analysis it asks for does not exist.
\<close>

theorem single_analysis_unauthenticated_401:
  "reply (handle sample_schemas sample_storage sample_env GetAnalysisById
      (sample_request ('''', '''')) \<lparr> userId = None \<rparr> MemStorage_new)
     = Sent 401 (MessageBody ''Not authenticated'')
   \<and> S_getPlantAnalysisById sample_storage MemStorage_new
        (req_id (sample_request ('''', ''''))) = Inr None"
  by (simp add: get_analysis_by_id_def not_authenticated_401_def respond_def
      not_authenticated_def sample_defs getPlantAnalysisById_def Map_get_def)

text \<open>
  Claim C8, amended. For every request whose session is authenticated,
  \<^verbatim>\<open>GET /api/analyses/:id\<close> responds 404 ``Analysis not found'' whenever the storage
  finds no analysis with the requested identifier, or finds one whose \<open>userId\<close> differs
  from the session's user id. For every request, it returns the analysis (status 200)
  exactly when the session is authenticated, the storage finds the analysis, and the
  analysis belongs to the session's user.
\<close>

theorem single_analysis_ownership:
  "(\<not> not_authenticated sess \<longrightarrow>
      (S_getPlantAnalysisById S st (req_id req) = Inr None
       \<or> (\<exists>a. S_getPlantAnalysisById S st (req_id req) = Inr (Some a)
              \<and> Some (pa_userId a) \<noteq> userId sess)) \<longrightarrow>
      reply (handle Z S E GetAnalysisById req sess st)
        = Sent 404 (MessageBody ''Analysis not found''))
   \<and> (reply (handle Z S E GetAnalysisById req sess st) = Sent 200 (AnalysisBody x)
        \<longleftrightarrow> \<not> not_authenticated sess
            \<and> S_getPlantAnalysisById S st (req_id req) = Inr (Some x)
            \<and> userId sess = Some (pa_userId x))"
  by (auto simp: get_analysis_by_id_def not_authenticated_401_def respond_def
      split: sum.splits option.splits)

text \<open>The amended claim on the analysis 1 of user 1, asked for by user 2 and by user 1.\<close>

theorem single_analysis_ownership_witness:
  "\<not> not_authenticated \<lparr> userId = Some 2 \<rparr>
   \<and> reply (handle sample_schemas sample_storage sample_env GetAnalysisById
        (sample_request ('''', '''')) \<lparr> userId = Some 2 \<rparr>
        sample_store)
      = Sent 404 (MessageBody ''Analysis not found'')
   \<and> reply (handle sample_schemas sample_storage sample_env GetAnalysisById
        (sample_request ('''', '''')) \<lparr> userId = Some 1 \<rparr>
        sample_store)
      = Sent 200 (AnalysisBody sample_stored)"
proof -
  have l: "S_getPlantAnalysisById sample_storage sample_store
      (req_id (sample_request ('''', ''''))) = Inr (Some sample_stored)"
    and o: "pa_userId sample_stored = 1"
    by (simp_all add: sample_defs sample_store_def sample_stored_def createPlantAnalysis_def
        getPlantAnalysisById_def Map_get_def Map_set_def Let_def sample_analysis_def)
  have n: "\<not> not_authenticated \<lparr> userId = Some 2 \<rparr>" "\<not> not_authenticated \<lparr> userId = Some 1 \<rparr>"
    by (simp_all add: not_authenticated_def)
  from single_analysis_ownership
    [where sess = "\<lparr> userId = Some 2 \<rparr>" and S = sample_storage and st = sample_store
      and req = "sample_request ('''', '''')" and Z = sample_schemas and E = sample_env]
    single_analysis_ownership
    [where sess = "\<lparr> userId = Some 1 \<rparr>" and S = sample_storage and st = sample_store
      and req = "sample_request ('''', '''')" and Z = sample_schemas and E = sample_env
      and x = sample_stored]
    l o n
  show ?thesis by simp
qed

subsection \<open>The session\<close>

text \<open>
  Claim C6, as stated, fails: the authentication state of a session is not one boolean.
  Two sessions that both pass the session check, one of user 1 and one of user 2, get
  different answers to the same request on the same storage.
\<close>

theorem session_is_not_a_flag:
  "not_authenticated \<lparr> userId = Some 1 \<rparr> = not_authenticated \<lparr> userId = Some 2 \<rparr>
   \<and> reply (handle sample_schemas sample_storage sample_env GetAnalysisById
        (sample_request ('''', '''')) \<lparr> userId = Some 1 \<rparr>
        sample_store)
      = Sent 200 (AnalysisBody sample_stored)
   \<and> reply (handle sample_schemas sample_storage sample_env GetAnalysisById
        (sample_request ('''', '''')) \<lparr> userId = Some 2 \<rparr>
        sample_store)
      = Sent 404 (MessageBody ''Analysis not found'')"
  by (simp add: get_analysis_by_id_def not_authenticated_401_def respond_def
      not_authenticated_def sample_defs sample_store_def sample_stored_def
      createPlantAnalysis_def getPlantAnalysisById_def Map_get_def Map_set_def Let_def
      sample_analysis_def)

text \<open>
  Claim C6, amended. The authentication state of a session that the route layer reads
  and writes is one optional number, the user id: a successful sign-in and a successful
  sign-up store the identifier of the user in it, the sign-out clears it, and no other
  route changes the session; the session check reads from it only whether it is set and
  not 0.
\<close>

theorem session_holds_user_id:
  "(signinSchema Z (req_body req) = Some (username, password)
      \<and> S_getUserByUsername S st username = Inr (Some user) \<and> u_password user = password
      \<longrightarrow> session_after (handle Z S E PostAuthSignin req sess st)
            = sess\<lparr> userId := Some (u_id user) \<rparr>)
   \<and> (signupSchema Z (req_body req) = Some parsed
      \<and> S_getUserByUsername S st (iu_username parsed) = Inr None
      \<and> fst (S_createUser S st (clock E) (InsertUser.truncate parsed)) = Inr user
      \<longrightarrow> session_after (handle Z S E PostAuthSignup req sess st)
            = sess\<lparr> userId := Some (u_id user) \<rparr>)
   \<and> session_after (handle Z S E PostAuthSignout req sess st) = sess\<lparr> userId := None \<rparr>
   \<and> (r \<noteq> PostAuthSignin \<and> r \<noteq> PostAuthSignup \<and> r \<noteq> PostAuthSignout
      \<longrightarrow> session_after (handle Z S E r req sess st) = sess)
   \<and> (not_authenticated sess \<longleftrightarrow> userId sess = None \<or> userId sess = Some 0)"
proof (intro conjI impI)
  show "session_after (handle Z S E PostAuthSignout req sess st) = sess\<lparr> userId := None \<rparr>"
    by (simp add: post_signout_def respond_def)
  show "not_authenticated sess \<longleftrightarrow> userId sess = None \<or> userId sess = Some 0"
    by (simp add: not_authenticated_def split: option.splits)
next
  assume "signinSchema Z (req_body req) = Some (username, password)
      \<and> S_getUserByUsername S st username = Inr (Some user) \<and> u_password user = password"
  then show "session_after (handle Z S E PostAuthSignin req sess st)
            = sess\<lparr> userId := Some (u_id user) \<rparr>"
    by (simp add: post_signin_def respond_def)
next
  assume a: "signupSchema Z (req_body req) = Some parsed
      \<and> S_getUserByUsername S st (iu_username parsed) = Inr None
      \<and> fst (S_createUser S st (clock E) (InsertUser.truncate parsed)) = Inr user"
  then have "iu_username (InsertUser.truncate parsed) = iu_username parsed"
    by (simp add: InsertUser.truncate_def)
  with a show "session_after (handle Z S E PostAuthSignup req sess st)
            = sess\<lparr> userId := Some (u_id user) \<rparr>"
    by (cases "S_createUser S st (clock E) (InsertUser.truncate parsed)")
       (simp add: post_signup_def respond_def Let_def)
next
  assume "r \<noteq> PostAuthSignin \<and> r \<noteq> PostAuthSignup \<and> r \<noteq> PostAuthSignout"
  then show "session_after (handle Z S E r req sess st) = sess"
    by (cases r)
       (simp_all add: handler_defs not_authenticated_401_def respond_def Let_def
          split: sum.splits option.splits prod.splits)
qed

text \<open>
  The amended claim on the store that holds the user alice: her sign-in puts her
  identifier 1 into the session, and the statistics route leaves the session alone.
\<close>

theorem session_holds_user_id_witness:
  "session_after (handle sample_schemas sample_storage sample_env PostAuthSignin
      (sample_request (''alice'', ''secret'')) \<lparr> userId = None \<rparr> sample_user_store)
     = \<lparr> userId = Some 1 \<rparr>
   \<and> session_after (handle sample_schemas sample_storage sample_env GetStats
      (sample_request ('''', '''')) \<lparr> userId = Some 1 \<rparr> sample_user_store)
     = \<lparr> userId = Some 1 \<rparr>"
proof -
  let ?alice = "\<lparr> u_id = 1, u_username = ''alice'', u_password = ''secret'', u_email = None,
    u_firstName = None, u_lastName = None, u_createdAt = Some 5 \<rparr>"
  have p: "signinSchema sample_schemas (req_body (sample_request (''alice'', ''secret'')))
      = Some (''alice'', ''secret'')"
    by (simp add: sample_schemas_def sample_request_def)
  have g: "S_getUserByUsername sample_storage sample_user_store ''alice'' = Inr (Some ?alice)"
    by (simp add: sample_defs sample_user_store_def sample_user_def createUser_def
        getUserByUsername_def Map_set_def Map_values_def Let_def)
  from session_holds_user_id
    [where Z = sample_schemas and req = "sample_request (''alice'', ''secret'')"
      and username = "''alice''" and password = "''secret''" and S = sample_storage
      and st = sample_user_store and user = ?alice and E = sample_env
      and sess = "\<lparr> userId = None \<rparr>"] p g
  have one: "session_after (handle sample_schemas sample_storage sample_env PostAuthSignin
      (sample_request (''alice'', ''secret'')) \<lparr> userId = None \<rparr> sample_user_store)
     = \<lparr> userId = Some 1 \<rparr>"
    by simp
  from session_holds_user_id
    [where r = GetStats and Z = sample_schemas and S = sample_storage and E = sample_env
      and req = "sample_request ('''', '''')" and sess = "\<lparr> userId = Some 1 \<rparr>"
      and st = sample_user_store]
  have two: "session_after (handle sample_schemas sample_storage sample_env GetStats
      (sample_request ('''', '''')) \<lparr> userId = Some 1 \<rparr> sample_user_store)
     = \<lparr> userId = Some 1 \<rparr>"
    by simp
  from one two show ?thesis by simp
qed

subsection \<open>Feedback\<close>

lemma Map_get_in_values: "Map_get m k = Some v \<Longrightarrow> v \<in> set (Map_values m)"
  by (auto simp: Map_get_def Map_values_def dest: map_of_SomeD intro: rev_image_eqI)

lemma createUserFeedback_stores:
  "(case createUserFeedback st t f of (x, st') \<Rightarrow>
      fb_analysisId x = ifb_analysisId f
      \<and> Map_get (userFeedback st') (fb_id x) = Some x
      \<and> x \<in> set (Map_values (userFeedback st'))
      \<and> plantAnalyses st' = plantAnalyses st)"
proof -
  obtain x st' where c: "createUserFeedback st t f = (x, st')"
    by (cases "createUserFeedback st t f")
  then have g: "Map_get (userFeedback st') (fb_id x) = Some x" "fb_analysisId x = ifb_analysisId f"
    "plantAnalyses st' = plantAnalyses st"
    by (auto simp: createUserFeedback_def Let_def Map_get_Map_set)
  from Map_get_in_values [OF g(1)] g show ?thesis by (simp add: c)
qed

lemma post_feedback_calls:
  "set (calls (handle Z S E PostFeedback req sess st)) \<subseteq> {OpCreateUserFeedback}"
  by (simp add: post_feedback_def not_authenticated_401_def respond_def
      split: option.splits sum.splits prod.splits)

lemma post_feedback_MemStorage:
  assumes "\<not> not_authenticated sess"
    and "insertUserFeedbackSchema Z (req_body req) (the (userId sess)) = Some f"
  shows "reply (handle Z (MemStorage_impl lc) E PostFeedback req sess st)
           = Sent 200 (FeedbackBody (fst (createUserFeedback st (clock E) f)))"
    and "storage_after (handle Z (MemStorage_impl lc) E PostFeedback req sess st)
           = snd (createUserFeedback st (clock E) f)"
  using assms
  by (simp_all add: post_feedback_def MemStorage_impl_def respond_def split: prod.splits)

text \<open>
  Claim C7. In every state of the store and for every \<open>analysisId\<close>, whether or not a
  plant analysis with that identifier exists, \<open>createUserFeedback\<close> returns the feedback
  record with that \<open>analysisId\<close> and stores it. The feedback route calls no storage
  method but \<open>createUserFeedback\<close>, so it never looks the analysis up; on the in-memory
  storage it answers an authenticated request that passes the schema with the record
  created.
\<close>

theorem feedback_without_referential_check:
  "(case createUserFeedback st t f of (x, st') \<Rightarrow>
      fb_analysisId x = ifb_analysisId f
      \<and> Map_get (userFeedback st') (fb_id x) = Some x
      \<and> x \<in> set (Map_values (userFeedback st')))
   \<and> set (calls (handle Z S E PostFeedback req sess st)) \<subseteq> {OpCreateUserFeedback}
   \<and> (\<not> not_authenticated sess
       \<and> insertUserFeedbackSchema Z (req_body req) (the (userId sess)) = Some f
      \<longrightarrow> reply (handle Z (MemStorage_impl lc) E PostFeedback req sess st)
             = Sent 200 (FeedbackBody (fst (createUserFeedback st (clock E) f)))
          \<and> storage_after (handle Z (MemStorage_impl lc) E PostFeedback req sess st)
             = snd (createUserFeedback st (clock E) f))"
  using createUserFeedback_stores [where st = st and t = t and f = f]
    post_feedback_calls [where Z = Z and S = S and E = E and req = req and sess = sess and st = st]
    post_feedback_MemStorage [where sess = sess and Z = Z and req = req and f = f and lc = lc
      and E = E and st = st]
  by (auto split: prod.splits)

text \<open>
  The claim on the empty store, which holds no analysis 7: the feedback for the analysis
  7 is accepted and stored.
\<close>

theorem feedback_without_referential_check_witness:
  "getPlantAnalysisById (MemStorage_new :: (unit, unit, unit) MemStorage) 7 = None
   \<and> reply (handle sample_schemas sample_storage sample_env PostFeedback
        (sample_request ('''', ''helpful'')) \<lparr> userId = Some 1 \<rparr> MemStorage_new)
      = Sent 200 (FeedbackBody \<lparr> fb_id = 1, fb_analysisId = 7, fb_comment = Some ''helpful'',
          fb_other = (), fb_createdAt = Some 1700000000000 \<rparr>)
   \<and> Map_values (userFeedback (storage_after (handle sample_schemas sample_storage sample_env
        PostFeedback (sample_request ('''', ''helpful'')) \<lparr> userId = Some 1 \<rparr> MemStorage_new)))
      = [\<lparr> fb_id = 1, fb_analysisId = 7, fb_comment = Some ''helpful'',
          fb_other = (), fb_createdAt = Some 1700000000000 \<rparr>]"
proof -
  let ?f = "\<lparr> ifb_analysisId = 7, ifb_comment = Value ''helpful'', ifb_other = () \<rparr>"
  have a: "\<not> not_authenticated \<lparr> userId = Some 1 \<rparr>" by (simp add: not_authenticated_def)
  have b: "insertUserFeedbackSchema sample_schemas (req_body (sample_request ('''', ''helpful'')))
      (the (userId \<lparr> userId = Some 1 \<rparr>)) = Some ?f"
    by (simp add: sample_schemas_def sample_request_def)
  have c: "getPlantAnalysisById (MemStorage_new :: (unit, unit, unit) MemStorage) 7 = None"
    by (simp add: getPlantAnalysisById_def MemStorage_new_def Map_get_def)
  have d: "createUserFeedback (MemStorage_new :: (unit, unit, unit) MemStorage) (clock sample_env) ?f
    = (\<lparr> fb_id = 1, fb_analysisId = 7, fb_comment = Some ''helpful'',
          fb_other = (), fb_createdAt = Some 1700000000000 \<rparr>,
       MemStorage_new\<lparr> currentFeedbackId := 2,
         userFeedback := [(1, \<lparr> fb_id = 1, fb_analysisId = 7, fb_comment = Some ''helpful'',
          fb_other = (), fb_createdAt = Some 1700000000000 \<rparr>)] \<rparr>)"
    by (simp add: createUserFeedback_def MemStorage_new_def Map_set_def sample_env_def Let_def)
  from feedback_without_referential_check
    [where st = MemStorage_new and t = "clock sample_env" and f = ?f
      and Z = sample_schemas and S = sample_storage and E = sample_env
      and req = "sample_request ('''', ''helpful'')" and sess = "\<lparr> userId = Some 1 \<rparr>"
      and lc = "\<lambda>s. s"] a b c
  show ?thesis
    unfolding d by (simp add: sample_storage_def Map_values_def)
qed

subsection \<open>User names\<close>

text \<open>
  What a request can do to the in-memory storage: nothing, or one create operation; a
  user is created only under a name that \<open>getUserByUsername\<close> does not find.
\<close>

lemma storage_after_MemStorage:
  "storage_after (handle Z (MemStorage_impl lc) E r req sess st) = st
   \<or> (\<exists>t u. getUserByUsername st (iu_username u) = None
         \<and> storage_after (handle Z (MemStorage_impl lc) E r req sess st) = snd (createUser st t u))
   \<or> (\<exists>t a. storage_after (handle Z (MemStorage_impl lc) E r req sess st)
         = snd (createPlantAnalysis st t a))
   \<or> (\<exists>t x. storage_after (handle Z (MemStorage_impl lc) E r req sess st)
         = snd (createDiseaseReport st t x))
   \<or> (\<exists>t f. storage_after (handle Z (MemStorage_impl lc) E r req sess st)
         = snd (createUserFeedback st t f))"
proof (cases r)
  case PostAuthSignup
  show ?thesis
  proof (cases "signupSchema Z (req_body req)")
    case None
    with PostAuthSignup show ?thesis by (simp add: post_signup_def respond_def)
  next
    case (Some parsed)
    show ?thesis
    proof (cases "getUserByUsername st (iu_username (InsertUser.truncate parsed))")
      case None
      with Some PostAuthSignup
      have "storage_after (handle Z (MemStorage_impl lc) E r req sess st)
          = snd (createUser st (clock E) (InsertUser.truncate parsed))"
        by (simp add: post_signup_def respond_def MemStorage_impl_def Let_def split: prod.splits)
      with None show ?thesis by blast
    next
      case (Some existing)
      with \<open>signupSchema Z (req_body req) = Some parsed\<close> PostAuthSignup show ?thesis
        by (simp add: post_signup_def respond_def MemStorage_impl_def Let_def)
    qed
  qed
next
  case PostAnalyses
  have "storage_after (post_analyses (MemStorage_impl lc) E req sess st) = st
    \<or> (\<exists>a. storage_after (post_analyses (MemStorage_impl lc) E req sess st)
          = snd (createPlantAnalysis st (clock E) a))"
    by (simp add: post_analyses_def not_authenticated_401_def respond_def MemStorage_impl_def
        case_prod_beta split: option.splits sum.splits) blast
  with PostAnalyses show ?thesis by auto
next
  case PostDiseaseReports
  have "storage_after (post_disease_reports Z (MemStorage_impl lc) E req sess st) = st
    \<or> (\<exists>x. storage_after (post_disease_reports Z (MemStorage_impl lc) E req sess st)
          = snd (createDiseaseReport st (clock E) x))"
    by (simp add: post_disease_reports_def not_authenticated_401_def respond_def
        MemStorage_impl_def case_prod_beta split: option.splits sum.splits) blast
  with PostDiseaseReports show ?thesis by auto
next
  case PostFeedback
  have "storage_after (post_feedback Z (MemStorage_impl lc) E req sess st) = st
    \<or> (\<exists>f. storage_after (post_feedback Z (MemStorage_impl lc) E req sess st)
          = snd (createUserFeedback st (clock E) f))"
    by (simp add: post_feedback_def not_authenticated_401_def respond_def
        MemStorage_impl_def case_prod_beta split: option.splits sum.splits) blast
  with PostFeedback show ?thesis by auto
qed (simp_all add: handler_defs not_authenticated_401_def respond_def MemStorage_impl_def Let_def
      split: option.splits sum.splits prod.splits)

lemma createUser_unique_usernames:
  assumes n: "MemStorage_numbered st" and u: "distinct (map u_username (Map_values (users st)))"
    and f: "getUserByUsername st (iu_username i) = None"
  shows "distinct (map u_username (Map_values (users (snd (createUser st t i)))))"
proof -
  obtain x st' where c: "createUser st t i = (x, st')" by (cases "createUser st t i")
  then have x: "u_id x = currentUserId st" "u_username x = iu_username i"
    and st': "users st' = Map_set (users st) (currentUserId st) x"
    by (auto simp: createUser_def Let_def)
  from n have "numbered u_id (users st) (currentUserId st)"
    by (simp add: MemStorage_numbered_def)
  from numbered_Map_set(2) [OF this x(1)]
  have app: "users st' = users st @ [(currentUserId st, x)]" by (simp add: st')
  from f have "iu_username i \<notin> set (map u_username (Map_values (users st)))"
    by (auto simp: getUserByUsername_def find_None_iff)
  with u x(2) show ?thesis by (simp add: c app Map_values_def)
qed

lemma handle_preserves:
  assumes "MemStorage_numbered st" and "distinct (map u_username (Map_values (users st)))"
  shows "MemStorage_numbered (storage_after (handle Z (MemStorage_impl lc) E r req sess st))
    \<and> distinct (map u_username (Map_values (users
          (storage_after (handle Z (MemStorage_impl lc) E r req sess st)))))"
proof -
  let ?st' = "storage_after (handle Z (MemStorage_impl lc) E r req sess st)"
  from storage_after_MemStorage [of Z lc E r req sess st]
  consider "?st' = st"
    | t u where "getUserByUsername st (iu_username u) = None" "?st' = snd (createUser st t u)"
    | t a where "?st' = snd (createPlantAnalysis st t a)"
    | t x where "?st' = snd (createDiseaseReport st t x)"
    | t f where "?st' = snd (createUserFeedback st t f)"
    by blast
  then show ?thesis
  proof cases
    case 1
    with assms show ?thesis by simp
  next
    case 2
    obtain y st1 where c: "createUser st t u = (y, st1)" by (cases "createUser st t u")
    from createUser_numbered(1) [OF assms(1) c] createUser_unique_usernames [OF assms 2(1), of t]
    show ?thesis by (simp add: 2(2) c)
  next
    case 3
    obtain y st1 where c: "createPlantAnalysis st t a = (y, st1)"
      by (cases "createPlantAnalysis st t a")
    then have "users st1 = users st" by (auto simp: createPlantAnalysis_def Let_def)
    with createPlantAnalysis_numbered(1) [OF assms(1) c] assms(2)
    show ?thesis by (simp add: 3 c)
  next
    case 4
    obtain y st1 where c: "createDiseaseReport st t x = (y, st1)"
      by (cases "createDiseaseReport st t x")
    then have "users st1 = users st" by (auto simp: createDiseaseReport_def Let_def)
    with createDiseaseReport_numbered(1) [OF assms(1) c] assms(2)
    show ?thesis by (simp add: 4 c)
  next
    case 5
    obtain y st1 where c: "createUserFeedback st t f = (y, st1)"
      by (cases "createUserFeedback st t f")
    then have "users st1 = users st" by (auto simp: createUserFeedback_def Let_def)
    with createUserFeedback_numbered(1) [OF assms(1) c] assms(2)
    show ?thesis by (simp add: 5 c)
  qed
qed

lemma serve_preserves:
  assumes "MemStorage_numbered st" and "distinct (map u_username (Map_values (users st)))"
  shows "MemStorage_numbered (serve Z (MemStorage_impl lc) st reqs)
    \<and> distinct (map u_username (Map_values (users (serve Z (MemStorage_impl lc) st reqs))))"
  using assms
proof (induction reqs arbitrary: st)
  case Nil
  then show ?case by simp
next
  case (Cons q reqs)
  obtain E r req sess where q: "q = (E, r, req, sess)" by (cases q)
  from handle_preserves [OF Cons.prems, of Z lc E r req sess]
  show ?case unfolding q by (simp add: Cons.IH)
qed

lemma signup_existing_username:
  assumes "signupSchema Z (req_body req) = Some parsed"
    and "getUserByUsername st (iu_username parsed) = Some existing"
  shows "reply (handle Z (MemStorage_impl lc) E PostAuthSignup req sess st)
           = Sent 400 (MessageBody ''Username already exists'')"
    and "storage_after (handle Z (MemStorage_impl lc) E PostAuthSignup req sess st) = st"
    and "calls (handle Z (MemStorage_impl lc) E PostAuthSignup req sess st) = [OpGetUserByUsername]"
  using assms
  by (simp_all add: post_signup_def respond_def MemStorage_impl_def Let_def
      InsertUser.truncate_def)

text \<open>
  Claim C2. In every state of the in-memory storage that is reached from the empty
  store by requests to the registered routes, the sign-up route among them, served one
  after the other, no two stored users have the same user name. The sign-up route keeps
  it so: when \<open>getUserByUsername\<close> finds a user with the requested name, it responds 400
  ``Username already exists'' and leaves the storage as it was.
\<close>

theorem usernames_unique:
  "distinct (map u_username (Map_values (users (serve Z (MemStorage_impl lc) MemStorage_new reqs))))
   \<and> (signupSchema Z (req_body req) = Some parsed
       \<and> getUserByUsername st (iu_username parsed) = Some existing
      \<longrightarrow> reply (handle Z (MemStorage_impl lc) E PostAuthSignup req sess st)
             = Sent 400 (MessageBody ''Username already exists'')
          \<and> storage_after (handle Z (MemStorage_impl lc) E PostAuthSignup req sess st) = st)"
proof -
  have "distinct (map u_username (Map_values (users (MemStorage_new :: ('a, 'b, 'c) MemStorage))))"
    by (simp add: MemStorage_new_def Map_values_def)
  from serve_preserves [OF MemStorage_new_numbered this]
  show ?thesis using signup_existing_username [where Z = Z and req = req and parsed = parsed
      and st = st and existing = existing and lc = lc and E = E and sess = sess]
    by blast
qed

text \<open>
  The claim on the store that holds the user alice: a second sign-up as alice is
  refused and changes nothing.
\<close>

theorem usernames_unique_witness:
  "getUserByUsername sample_user_store ''alice''
     = Some \<lparr> u_id = 1, u_username = ''alice'', u_password = ''secret'', u_email = None,
         u_firstName = None, u_lastName = None, u_createdAt = Some 5 \<rparr>
   \<and> reply (handle sample_schemas sample_storage sample_env PostAuthSignup
        (sample_request (''alice'', ''other'')) \<lparr> userId = None \<rparr> sample_user_store)
      = Sent 400 (MessageBody ''Username already exists'')
   \<and> storage_after (handle sample_schemas sample_storage sample_env PostAuthSignup
        (sample_request (''alice'', ''other'')) \<lparr> userId = None \<rparr> sample_user_store)
      = sample_user_store"
proof -
  let ?alice = "\<lparr> u_id = 1, u_username = ''alice'', u_password = ''secret'', u_email = None,
    u_firstName = None, u_lastName = None, u_createdAt = Some 5 \<rparr>"
  let ?parsed = "\<lparr> iu_username = ''alice'', iu_password = ''other'', iu_email = Undefined,
    iu_firstName = Undefined, iu_lastName = Undefined, confirmPassword = ''other'' \<rparr>"
  have p: "signupSchema sample_schemas (req_body (sample_request (''alice'', ''other'')))
      = Some ?parsed"
    by (simp add: sample_schemas_def sample_request_def)
  have g: "getUserByUsername sample_user_store (iu_username ?parsed) = Some ?alice"
    by (simp add: sample_user_store_def sample_user_def MemStorage_new_def createUser_def
        getUserByUsername_def Map_set_def Map_values_def Let_def)
  from usernames_unique
    [where Z = sample_schemas and req = "sample_request (''alice'', ''other'')"
      and parsed = ?parsed and st = sample_user_store and existing = ?alice
      and lc = "\<lambda>s. s" and E = sample_env and sess = "\<lparr> userId = None \<rparr>"] p g
  show ?thesis by (simp add: sample_storage_def)
qed

end
